theory Spec2Isabelle
  imports Complex_Main "HOL-Library.AList"
begin

section \<open>Python values and exceptions\<close>

text \<open>
  The driver (\<^verbatim>\<open>src/napalm_aoscx/aoscx.py\<close>) reshapes the nested dicts and lists the
  vendor SDK returns. A value of that data is a \<open>jv\<close>; a dict is an association list
  in insertion order (Python dicts iterate in insertion order) whose keys are strings,
  as the keys of a decoded JSON object are. A Python float is modelled by the real
  number it stands for; rounding is not modelled.
\<close>

datatype jv =
    JNull
  | JBool bool
  | JInt int
  | JFloat real
  | JStr string
  | JList "jv list"
  | JDict "(string \<times> jv) list"

type_synonym dict = "(string \<times> jv) list"

text \<open>
  Every exception the modelled code can raise is a value. \<open>Unmodelled\<close> marks the two
  places where Python goes on and the model stops rather than guess: a dict key that
  is not a \<open>str\<close>, and the text grammar of \<open>float(str)\<close> and \<open>int(str)\<close>
  outside plain ASCII digits.
\<close>

datatype error =
    KeyError string
  | KeyErrorInt int
  | TypeError
  | AttributeError
  | IndexError
  | ValueError
  | UnboundLocalError string
  | TransportError string
  | MergeConfigException string
  | Unmodelled string

definition ebind :: "error + 'a \<Rightarrow> ('a \<Rightarrow> error + 'b) \<Rightarrow> error + 'b" where
  "ebind m f = (case m of Inl e \<Rightarrow> Inl e | Inr x \<Rightarrow> f x)"

text \<open>A \<open>for\<close> loop over a list whose body may raise: the first exception ends it.\<close>

fun efold :: "('a \<Rightarrow> 's \<Rightarrow> error + 's) \<Rightarrow> 'a list \<Rightarrow> 's \<Rightarrow> error + 's" where
  "efold f [] s = Inr s"
| "efold f (x # xs) s = (case f x s of Inl e \<Rightarrow> Inl e | Inr s' \<Rightarrow> efold f xs s')"

text \<open>\<open>d[k]\<close> with a string key.\<close>

definition py_getitem :: "jv \<Rightarrow> string \<Rightarrow> error + jv" where
  "py_getitem d k =
     (case d of
        JDict kvs \<Rightarrow> (case map_of kvs k of None \<Rightarrow> Inl (KeyError k) | Some v \<Rightarrow> Inr v)
      | _ \<Rightarrow> Inl TypeError)"

text \<open>\<open>d[k] = v\<close> with a string key: an existing key keeps its place.\<close>

definition py_setitem :: "jv \<Rightarrow> string \<Rightarrow> jv \<Rightarrow> error + jv" where
  "py_setitem d k v =
     (case d of JDict kvs \<Rightarrow> Inr (JDict (AList.update k v kvs)) | _ \<Rightarrow> Inl TypeError)"

fun py_substr :: "string \<Rightarrow> string \<Rightarrow> bool" where
  "py_substr k [] = (k = [])"
| "py_substr k (c # s) = (take (length k) (c # s) = k \<or> py_substr k s)"

text \<open>
  \<open>k in d\<close> for a string \<open>k\<close>: key membership in a dict, element membership in a
  list, substring test in a string, and a TypeError on anything that is not iterable.
\<close>

definition py_in :: "string \<Rightarrow> jv \<Rightarrow> error + bool" where
  "py_in k d =
     (case d of
        JDict kvs \<Rightarrow> Inr (k \<in> set (map fst kvs))
      | JList xs \<Rightarrow> Inr (JStr k \<in> set xs)
      | JStr s \<Rightarrow> Inr (py_substr k s)
      | _ \<Rightarrow> Inl TypeError)"

definition py_len :: "jv \<Rightarrow> error + nat" where
  "py_len v =
     (case v of
        JStr s \<Rightarrow> Inr (length s)
      | JList xs \<Rightarrow> Inr (length xs)
      | JDict kvs \<Rightarrow> Inr (length kvs)
      | _ \<Rightarrow> Inl TypeError)"

text \<open>Truthiness (\<open>bool(v)\<close>, and \<open>v\<close> as a condition).\<close>

definition py_truthy :: "jv \<Rightarrow> bool" where
  "py_truthy v =
     (case v of
        JNull \<Rightarrow> False
      | JBool b \<Rightarrow> b
      | JInt i \<Rightarrow> i \<noteq> 0
      | JFloat r \<Rightarrow> r \<noteq> 0
      | JStr s \<Rightarrow> s \<noteq> []
      | JList xs \<Rightarrow> xs \<noteq> []
      | JDict kvs \<Rightarrow> kvs \<noteq> [])"

text \<open>\<open>v == "text"\<close>: true for that string only.\<close>

definition py_eq_str :: "jv \<Rightarrow> string \<Rightarrow> bool" where
  "py_eq_str v s = (v = JStr s)"

section \<open>get_interfaces_counters\<close>

text \<open>The dict literal that \<open>intf_counter\<close> starts from, in the source's order.\<close>

definition zero_counters :: dict where
  "zero_counters =
     [(''tx_errors'', JInt 0), (''rx_errors'', JInt 0),
      (''tx_discards'', JInt 0), (''rx_discards'', JInt 0),
      (''tx_octets'', JInt 0), (''rx_octets'', JInt 0),
      (''tx_unicast_packets'', JInt 0), (''rx_unicast_packets'', JInt 0),
      (''tx_multicast_packets'', JInt 0), (''rx_multicast_packets'', JInt 0),
      (''tx_broadcast_packets'', JInt 0), (''rx_broadcast_packets'', JInt 0)]"

text \<open>
  One statement \<^verbatim>\<open>if src in interface_details['statistics']:
  intf_counter[dst] = interface_details['statistics'][src]\<close>.
\<close>

definition copy_stat :: "jv \<Rightarrow> string \<times> string \<Rightarrow> dict \<Rightarrow> error + dict" where
  "copy_stat interface_details sd intf_counter =
     ebind (py_getitem interface_details ''statistics'') (\<lambda>statistics.
     ebind (py_in (fst sd) statistics) (\<lambda>present.
       if present
       then ebind (py_getitem statistics (fst sd)) (\<lambda>v.
              Inr (AList.update (snd sd) v intf_counter))
       else Inr intf_counter))"

text \<open>The twelve \<open>if\<close> statements, in the source's order: (source statistic, counter).\<close>

definition stat_keys :: "(string \<times> string) list" where
  "stat_keys =
     [(''tx_bytes'', ''tx_octets''), (''rx_bytes'', ''rx_octets''),
      (''if_hc_out_unicast_packets'', ''tx_unicast_packets''),
      (''if_hc_in_unicast_packets'', ''rx_unicast_packets''),
      (''if_out_multicast_packets'', ''tx_multicast_packets''),
      (''if_in_multicast_packets'', ''rx_multicast_packets''),
      (''if_out_broadcast_packets'', ''tx_broadcast_packets''),
      (''if_in_broadcast_packets'', ''rx_broadcast_packets''),
      (''tx_errors'', ''tx_errors''), (''rx_errors'', ''rx_errors''),
      (''tx_dropped'', ''tx_discards''), (''rx_dropped'', ''rx_discards'')]"

definition intf_counter_of :: "jv \<Rightarrow> error + jv" where
  "intf_counter_of interface_details =
     ebind (efold (copy_stat interface_details) stat_keys zero_counters) (\<lambda>intf_counter.
       Inr (JDict intf_counter))"

text \<open>
  \<open>fetched\<close> is the outcome of \<^verbatim>\<open>Interface.get_facts(self.session)\<close>: the dict of
  interfaces, or the exception the SDK raised.
\<close>

definition get_interfaces_counters :: "error + dict \<Rightarrow> error + dict" where
  "get_interfaces_counters fetched =
     ebind fetched (\<lambda>interface_list.
       efold (\<lambda>(interface, interface_details) interface_stats_dictionary.
                ebind (intf_counter_of interface_details) (\<lambda>intf_counter.
                  Inr (AList.update interface intf_counter interface_stats_dictionary)))
             interface_list [])"

section \<open>get_interfaces\<close>

text \<open>The body of the loop for one interface: the dict stored under its name.\<close>

definition interface_entry :: "jv \<Rightarrow> error + jv" where
  "interface_entry interface_details0 =
     ebind (py_in ''description'' interface_details0) (\<lambda>has_description.
     ebind (if \<not> has_description then Inr True
            else ebind (py_getitem interface_details0 ''description'') (\<lambda>d. Inr (d = JNull)))
       (\<lambda>reset.
     ebind (if reset then py_setitem interface_details0 ''description'' (JStr [])
            else Inr interface_details0) (\<lambda>interface_details.
     ebind (py_getitem interface_details ''hw_intf_info'') (\<lambda>hw.
     ebind (py_in ''max_speed'' hw) (\<lambda>has_speed.
     ebind (if \<not> has_speed then Inr (JStr ''N/A'') else py_getitem hw ''max_speed'') (\<lambda>speed.
     ebind (py_in ''mtu'' interface_details) (\<lambda>has_mtu.
     ebind (if \<not> has_mtu then Inr (JStr ''N/A'') else py_getitem interface_details ''mtu'')
       (\<lambda>mtu.
     ebind (py_getitem interface_details ''hw_intf_info'') (\<lambda>hw'.
     ebind (py_in ''mac_addr'' hw') (\<lambda>has_mac.
     ebind (if \<not> has_mac then Inr (JStr ''N/A'') else py_getitem hw' ''mac_addr'')
       (\<lambda>mac_address.
     ebind (py_getitem interface_details ''link_state'') (\<lambda>link_state.
     ebind (py_getitem interface_details ''admin_state'') (\<lambda>admin_state.
     ebind (py_getitem interface_details ''description'') (\<lambda>description.
       Inr (JDict
         [(''is_up'', JBool (py_eq_str link_state ''up'')),
          (''is_enabled'', JBool (py_eq_str admin_state ''up'')),
          (''description'', description),
          (''last_flapped'', JFloat (- 1)),
          (''speed'', speed),
          (''mtu'', mtu),
          (''mac_address'', mac_address)])))))))))))))))"

definition get_interfaces :: "error + dict \<Rightarrow> error + dict" where
  "get_interfaces fetched =
     ebind fetched (\<lambda>interface_list.
       efold (\<lambda>(interface, interface_details) interfaces_return.
                ebind (interface_entry interface_details) (\<lambda>entry.
                  Inr (AList.update interface entry interfaces_return)))
             interface_list [])"

text \<open>The closed form of the twelve statements when \<open>statistics\<close> is a dict.\<close>

definition upd_opt :: "string \<Rightarrow> jv option \<Rightarrow> dict \<Rightarrow> dict" where
  "upd_opt d x c = (case x of None \<Rightarrow> c | Some v \<Rightarrow> AList.update d v c)"

definition counters_of :: "dict \<Rightarrow> dict" where
  "counters_of st = foldl (\<lambda>c sd. upd_opt (snd sd) (map_of st (fst sd)) c) zero_counters stat_keys"

text \<open>What a counter is specified to be: the source statistic, or 0 when its key is absent.\<close>

definition stat_or_zero :: "dict \<Rightarrow> string \<Rightarrow> jv" where
  "stat_or_zero statistics key = (case map_of statistics key of None \<Rightarrow> JInt 0 | Some v \<Rightarrow> v)"

text \<open>An interface with two of the statistics present, and one with none.\<close>

definition ex_counters_in :: dict where
  "ex_counters_in =
     [(''1/1/1'', JDict [(''statistics'', JDict [(''tx_bytes'', JInt 5), (''rx_dropped'', JInt 7)])]),
      (''vlan1'', JDict [(''statistics'', JDict [])])]"

text \<open>
  What the entry of an interface is specified to hold: a field of the source when it is
  present, the literal \<open>"N/A"\<close> otherwise; and the description, or the empty string when
  it is absent or null.
\<close>

definition field_or_na :: "dict \<Rightarrow> string \<Rightarrow> jv" where
  "field_or_na m k = (case map_of m k of None \<Rightarrow> JStr ''N/A'' | Some v \<Rightarrow> v)"

definition description_or_empty :: "dict \<Rightarrow> jv" where
  "description_or_empty d =
     (case map_of d ''description'' of None \<Rightarrow> JStr [] | Some v \<Rightarrow> if v = JNull then JStr [] else v)"

text \<open>
  Two interfaces: a port with no description, no MTU and an empty \<open>hw_intf_info\<close>, and
  a VLAN interface with every field, whose link state is \<open>"UP"\<close> in capitals.
\<close>

definition ex_interfaces :: dict where
  "ex_interfaces =
     [(''1/1/1'', JDict [(''link_state'', JStr ''up''), (''admin_state'', JStr ''down''),
                         (''description'', JNull), (''hw_intf_info'', JDict [])]),
      (''vlan1'', JDict [(''description'', JStr ''mgmt''), (''link_state'', JStr ''UP''),
                         (''admin_state'', JStr ''up''), (''mtu'', JInt 1500),
                         (''hw_intf_info'', JDict [(''max_speed'', JInt 1000),
                                                   (''mac_addr'', JStr ''aa:bb'')])])]"

definition ex_interfaces_out :: dict where
  "ex_interfaces_out =
     [(''1/1/1'', JDict [(''is_up'', JBool True), (''is_enabled'', JBool False),
                         (''description'', JStr []), (''last_flapped'', JFloat (- 1)),
                         (''speed'', JStr ''N/A''), (''mtu'', JStr ''N/A''),
                         (''mac_address'', JStr ''N/A'')]),
      (''vlan1'', JDict [(''is_up'', JBool False), (''is_enabled'', JBool True),
                         (''description'', JStr ''mgmt''), (''last_flapped'', JFloat (- 1)),
                         (''speed'', JInt 1000), (''mtu'', JInt 1500),
                         (''mac_address'', JStr ''aa:bb'')])]"

section \<open>get_mac_address_table\<close>

text \<open>\<open>xs[i]\<close> for a list and a non-negative index.\<close>

definition py_index :: "'a list \<Rightarrow> nat \<Rightarrow> error + 'a" where
  "py_index xs i = (if i < length xs then Inr (xs ! i) else Inl IndexError)"

text \<open>\<open>s.split(c)\<close> for a one-character separator.\<close>

fun split_on :: "char \<Rightarrow> string \<Rightarrow> string list" where
  "split_on c [] = [[]]"
| "split_on c (x # xs) =
     (if x = c then [] # split_on c xs
      else (case split_on c xs of w # ws \<Rightarrow> (x # w) # ws | [] \<Rightarrow> [[x]]))"

text \<open>
  \<open>int(s)\<close> for a string. An optional sign and ASCII digits are read in base ten; a
  string with white space, an underscore or a byte outside ASCII is outside the model (Python
  accepts some of them); every other string raises ValueError.
\<close>

definition char_code :: "char \<Rightarrow> nat" where
  "char_code c = of_char c"

definition is_digit :: "char \<Rightarrow> bool" where
  "is_digit c = (48 \<le> char_code c \<and> char_code c \<le> 57)"

definition digits_value :: "string \<Rightarrow> int" where
  "digits_value s = foldl (\<lambda>n c. 10 * n + (int (char_code c) - 48)) 0 s"

definition beyond_int_grammar :: "char \<Rightarrow> bool" where
  "beyond_int_grammar c =
     (c = CHR ''_'' \<or> char_code c = 32 \<or> (9 \<le> char_code c \<and> char_code c \<le> 13) \<or>
      (28 \<le> char_code c \<and> char_code c \<le> 31) \<or> 128 \<le> char_code c)"

definition py_int_of_str :: "string \<Rightarrow> error + int" where
  "py_int_of_str s =
     (if list_ex beyond_int_grammar s then Inl (Unmodelled ''int(str)'')
      else (case s of
              [] \<Rightarrow> Inl ValueError
            | c # r \<Rightarrow>
                if c = CHR ''-'' \<and> r \<noteq> [] \<and> list_all is_digit r then Inr (- digits_value r)
                else if c = CHR ''+'' \<and> r \<noteq> [] \<and> list_all is_digit r then Inr (digits_value r)
                else if list_all is_digit s then Inr (digits_value s)
                else Inl ValueError))"

text \<open>\<open>int(v)\<close>: a float is truncated towards zero.\<close>

definition py_int :: "jv \<Rightarrow> error + int" where
  "py_int v =
     (case v of
        JInt i \<Rightarrow> Inr i
      | JBool b \<Rightarrow> Inr (if b then 1 else 0)
      | JFloat r \<Rightarrow> Inr (if 0 \<le> r then \<lfloor>r\<rfloor> else \<lceil>r\<rceil>)
      | JStr s \<Rightarrow> py_int_of_str s
      | _ \<Rightarrow> Inl TypeError)"

text \<open>\<open>list(d.keys())\<close>: an AttributeError on anything but a dict.\<close>

definition py_keys :: "jv \<Rightarrow> error + string list" where
  "py_keys v = (case v of JDict kvs \<Rightarrow> Inr (map fst kvs) | _ \<Rightarrow> Inl AttributeError)"

text \<open>
  A \<open>Mac\<close> object of the SDK, as far as the driver reads it: the id of its parent VLAN
  (\<open>_parent_vlan.__dict__['id']\<close>), and what \<open>mac_obj.get()\<close> does: it raises, or leaves
  the attributes the device returned in \<open>__dict__['_original_attributes']\<close>.
\<close>

record mac_obj =
  parent_vlan_id :: jv
  mac_get :: "error + jv"

text \<open>
  The body of the second loop, for one VLAN's dict \<open>mac\<close> of MAC objects: only the first key
  of the dict is read.
\<close>

definition mac_record :: "(string \<times> mac_obj) list \<Rightarrow> error + jv" where
  "mac_record mac =
     ebind (py_index (map fst mac) 0) (\<lambda>mac_key.
     ebind (py_index (split_on CHR '','' mac_key) 0) (\<lambda>mac_type.
     ebind (py_index (split_on CHR '','' mac_key) 1) (\<lambda>mac_address.
     ebind (case map_of mac mac_key of None \<Rightarrow> Inl (KeyError mac_key) | Some obj \<Rightarrow> Inr obj)
       (\<lambda>mac_obj.
     ebind (mac_get mac_obj) (\<lambda>original_attributes.
     ebind (py_int (parent_vlan_id mac_obj)) (\<lambda>vlan.
     ebind (py_getitem original_attributes ''port'') (\<lambda>port.
     ebind (py_keys port) (\<lambda>port_keys.
     ebind (py_index port_keys 0) (\<lambda>interface.
       Inr (JDict
         [(''mac'', JStr mac_address),
          (''interface'', JStr interface),
          (''vlan'', JInt vlan),
          (''static'', JBool (mac_type = ''static'')),
          (''active'', JBool True),
          (''moves'', JNull),
          (''last_move'', JNull)]))))))))))"

text \<open>
  \<open>vlan_list\<close> is the outcome of \<^verbatim>\<open>Vlan.get_all(self.session)\<close>, a dict of VLAN objects;
  \<open>mac_get_all v\<close> is the outcome of \<^verbatim>\<open>Mac.get_all(self.session, v)\<close> for the VLAN
  object \<open>v\<close>, a dict from compound keys to MAC objects.
\<close>

definition get_mac_address_table ::
  "error + ('k \<times> 'v) list \<Rightarrow> ('v \<Rightarrow> error + (string \<times> mac_obj) list) \<Rightarrow> error + jv list" where
  "get_mac_address_table vlan_list mac_get_all =
     ebind vlan_list (\<lambda>vlans.
     ebind (efold (\<lambda>(vlan, vlan_obj) mac_list.
                     ebind (mac_get_all vlan_obj) (\<lambda>macs. Inr (mac_list @ [macs])))
                  vlans []) (\<lambda>mac_list.
       efold (\<lambda>mac mac_entries.
                ebind (mac_record mac) (\<lambda>entry. Inr (mac_entries @ [entry])))
             (filter (\<lambda>mac_entry. length mac_entry > 0) mac_list) []))"

text \<open>
  The MAC entries the table operation can read: the compound key has exactly one comma,
  \<open>mac_obj.get()\<close> returns attributes whose \<open>port\<close> is a non-empty dict, and the id of
  the parent VLAN converts with \<open>int\<close>.
\<close>

definition readable_mac :: "string \<times> mac_obj \<Rightarrow> bool" where
  "readable_mac e =
     (case e of (mac_key, obj) \<Rightarrow>
        count_list mac_key CHR '','' = 1 \<and>
        (case mac_get obj of
           Inl _ \<Rightarrow> False
         | Inr original_attributes \<Rightarrow>
             (case py_getitem original_attributes ''port'' of
                Inr (JDict port) \<Rightarrow> port \<noteq> []
              | _ \<Rightarrow> False)) \<and>
        (case py_int (parent_vlan_id obj) of Inl _ \<Rightarrow> False | Inr _ \<Rightarrow> True))"

text \<open>
  Three VLANs: one with no MAC entry, one with two (a static one first), one with one.
  \<open>ex_mac_list\<close> lists what \<open>Mac.get_all\<close> returns for them, in order.
\<close>

definition ex_mac_obj :: "int \<Rightarrow> string \<Rightarrow> mac_obj" where
  "ex_mac_obj vid port =
     \<lparr>parent_vlan_id = JInt vid,
      mac_get = Inr (JDict [(''port'', JDict [(port, JStr ''/rest/v10.04/system/interfaces'')])])\<rparr>"

definition ex_vlans :: "(int \<times> string) list" where
  "ex_vlans = [(1, ''vlan1''), (10, ''vlan10''), (20, ''vlan20'')]"

definition ex_mac_get_all :: "string \<Rightarrow> error + (string \<times> mac_obj) list" where
  "ex_mac_get_all vlan_obj =
     (if vlan_obj = ''vlan10''
      then Inr [(''static,aa:bb:cc:dd:ee:ff'', ex_mac_obj 10 ''1/1/1''),
                (''dynamic,11:22:33:44:55:66'', ex_mac_obj 10 ''1/1/2'')]
      else if vlan_obj = ''vlan20''
      then Inr [(''dynamic,00:00:00:00:00:01'', ex_mac_obj 20 ''1/1/3'')]
      else Inr [])"

definition ex_mac_list :: "(string \<times> mac_obj) list list" where
  "ex_mac_list =
     [[],
      [(''static,aa:bb:cc:dd:ee:ff'', ex_mac_obj 10 ''1/1/1''),
       (''dynamic,11:22:33:44:55:66'', ex_mac_obj 10 ''1/1/2'')],
      [(''dynamic,00:00:00:00:00:01'', ex_mac_obj 20 ''1/1/3'')]]"

definition ex_mac_out :: "jv list" where
  "ex_mac_out =
     [JDict [(''mac'', JStr ''aa:bb:cc:dd:ee:ff''), (''interface'', JStr ''1/1/1''),
             (''vlan'', JInt 10), (''static'', JBool True), (''active'', JBool True),
             (''moves'', JNull), (''last_move'', JNull)],
      JDict [(''mac'', JStr ''00:00:00:00:00:01''), (''interface'', JStr ''1/1/3''),
             (''vlan'', JInt 20), (''static'', JBool False), (''active'', JBool True),
             (''moves'', JNull), (''last_move'', JNull)]]"

section \<open>get_vlans\<close>

text \<open>
  The value of one VLAN in \<open>vlan_json\<close>, the dict literal
  \<^verbatim>\<open>{"name": ..., "interfaces": []}\<close>; \<open>vlan_json\<close> itself is keyed by integers.
\<close>

datatype vlan_entry = VlanEntry (vlan_name: jv) (vlan_interfaces: "string list")

text \<open>
  The first loop: \<^verbatim>\<open>vlan_json[int(vlan_id)] = {"name": vlan_list[vlan_id]['name'], ...}\<close>.
  Python evaluates the right-hand side before the subscript.
\<close>

definition add_vlan :: "string \<times> jv \<Rightarrow> (int \<times> vlan_entry) list \<Rightarrow> error + (int \<times> vlan_entry) list" where
  "add_vlan kv vlan_json =
     ebind (py_getitem (snd kv) ''name'') (\<lambda>name.
     ebind (py_int_of_str (fst kv)) (\<lambda>vlan_id.
       Inr (AList.update vlan_id (VlanEntry name []) vlan_json)))"

text \<open>
  One arm of the \<open>if\<close>/\<open>elif\<close>:
  \<^verbatim>\<open>k in interface_facts and interface_facts[k] and len(interface_facts[k]) > 0\<close>,
  with Python's short-circuit evaluation.
\<close>

definition present_nonempty :: "string \<Rightarrow> jv \<Rightarrow> error + bool" where
  "present_nonempty k interface_facts =
     ebind (py_in k interface_facts) (\<lambda>present.
       if \<not> present then Inr False
       else ebind (py_getitem interface_facts k) (\<lambda>v.
         if \<not> py_truthy v then Inr False
         else ebind (py_len v) (\<lambda>n. Inr (n > 0))))"

text \<open>The variable \<open>key\<close> after the \<open>if\<close>/\<open>elif\<close>; it stays \<open>""\<close> when neither arm holds.\<close>

definition membership_key :: "jv \<Rightarrow> error + string" where
  "membership_key interface_facts =
     ebind (present_nonempty ''applied_vlan_trunks'' interface_facts) (\<lambda>trunks.
       if trunks then Inr ''applied_vlan_trunks''
       else ebind (present_nonempty ''applied_vlan_tag'' interface_facts) (\<lambda>tag.
         if tag then Inr ''applied_vlan_tag'' else Inr []))"

text \<open>What a \<open>for\<close> loop or a comprehension iterates over: the keys of a dict, the
  elements of a list, the characters of a string.\<close>

definition py_iter :: "jv \<Rightarrow> error + jv list" where
  "py_iter v =
     (case v of
        JDict kvs \<Rightarrow> Inr (map (\<lambda>kv. JStr (fst kv)) kvs)
      | JList xs \<Rightarrow> Inr xs
      | JStr s \<Rightarrow> Inr (map (\<lambda>c. JStr [c]) s)
      | _ \<Rightarrow> Inl TypeError)"

text \<open>\<^verbatim>\<open>vlan_ids = [int(key) for key in interface_facts[key]]\<close>.\<close>

definition vlan_ids_of :: "jv \<Rightarrow> error + int list" where
  "vlan_ids_of source =
     ebind (py_iter source) (\<lambda>keys.
       efold (\<lambda>key vlan_ids. ebind (py_int key) (\<lambda>n. Inr (vlan_ids @ [n]))) keys [])"

text \<open>\<^verbatim>\<open>vlan_json[id]['interfaces'].append(interface)\<close>.\<close>

definition append_interface ::
  "string \<Rightarrow> int \<Rightarrow> (int \<times> vlan_entry) list \<Rightarrow> error + (int \<times> vlan_entry) list" where
  "append_interface interface vid vlan_json =
     (case map_of vlan_json vid of
        None \<Rightarrow> Inl (KeyErrorInt vid)
      | Some e \<Rightarrow>
          Inr (AList.update vid (VlanEntry (vlan_name e) (vlan_interfaces e @ [interface]))
                 vlan_json))"

text \<open>The body of the second loop, for one physical interface.\<close>

definition scan_interface ::
  "string \<times> jv \<Rightarrow> (int \<times> vlan_entry) list \<Rightarrow> error + (int \<times> vlan_entry) list" where
  "scan_interface kv vlan_json =
     ebind (membership_key (snd kv)) (\<lambda>key.
       if key \<noteq> []
       then ebind (py_getitem (snd kv) key) (\<lambda>source.
            ebind (vlan_ids_of source) (\<lambda>vlan_ids.
              efold (append_interface (fst kv)) vlan_ids vlan_json))
       else Inr vlan_json)"

text \<open>
  \<open>vlan_fetch\<close> is the outcome of \<^verbatim>\<open>Vlan.get_facts(self.session)\<close> and \<open>interface_fetch\<close>
  that of \<^verbatim>\<open>Interface.get_facts(self.session)\<close>, which is called after the first loop.
\<close>

definition get_vlans :: "error + dict \<Rightarrow> error + dict \<Rightarrow> error + (int \<times> vlan_entry) list" where
  "get_vlans vlan_fetch interface_fetch =
     ebind vlan_fetch (\<lambda>vlan_list.
     ebind (efold add_vlan vlan_list []) (\<lambda>vlan_json.
     ebind interface_fetch (\<lambda>interface_list.
       efold scan_interface
         (filter (\<lambda>kv. CHR ''/'' \<in> set (fst kv)) interface_list) vlan_json)))"

text \<open>
  The membership rule in the spec's words: the trunk-VLAN dict of an interface if it is
  present and non-empty, else its tagged-VLAN dict if that is present and non-empty, else
  nothing.
\<close>

definition nonempty_dict :: "jv option \<Rightarrow> dict option" where
  "nonempty_dict v = (case v of Some (JDict t) \<Rightarrow> if t \<noteq> [] then Some t else None | _ \<Rightarrow> None)"

definition member_source :: "dict \<Rightarrow> dict option" where
  "member_source interface_facts =
     (case nonempty_dict (map_of interface_facts ''applied_vlan_trunks'') of
        Some t \<Rightarrow> Some t
      | None \<Rightarrow> nonempty_dict (map_of interface_facts ''applied_vlan_tag''))"

definition source_ids :: "jv \<Rightarrow> int list" where
  "source_ids interface_facts =
     (case interface_facts of
        JDict f \<Rightarrow> (case member_source f of None \<Rightarrow> [] | Some src \<Rightarrow> map (\<lambda>kv. digits_value (fst kv)) src)
      | _ \<Rightarrow> [])"

text \<open>
  The member interfaces of VLAN \<open>n\<close>: the physical interfaces (those with a \<open>/\<close> in the
  name), in the order of the interface dict, once for every occurrence of \<open>n\<close> among the
  ids of their membership source.
\<close>

definition vlan_members :: "int \<Rightarrow> dict \<Rightarrow> string list" where
  "vlan_members n interface_list =
     concat (map (\<lambda>kv. replicate (count_list (source_ids (snd kv)) n) (fst kv))
                 (filter (\<lambda>kv. CHR ''/'' \<in> set (fst kv)) interface_list))"

text \<open>
  The inputs the VLAN operation is defined for. A VLAN id, as a key of a dict, is a
  non-empty string of ASCII digits. The trunk and tag fields of a physical interface are
  absent, null, or a dict keyed by ids of VLANs of the VLAN list (\<open>known\<close>); an id outside
  the list raises KeyError at \<^verbatim>\<open>vlan_json[id]\<close>.
\<close>

definition vlan_id_string :: "string \<Rightarrow> bool" where
  "vlan_id_string k = (k \<noteq> [] \<and> list_all is_digit k)"

definition vlan_source_ok :: "int list \<Rightarrow> jv option \<Rightarrow> bool" where
  "vlan_source_ok known v =
     (case v of
        None \<Rightarrow> True
      | Some JNull \<Rightarrow> True
      | Some (JDict t) \<Rightarrow>
          list_all (\<lambda>kv. vlan_id_string (fst kv) \<and> digits_value (fst kv) \<in> set known) t
      | _ \<Rightarrow> False)"

definition scannable :: "int list \<Rightarrow> jv \<Rightarrow> bool" where
  "scannable known interface_facts =
     (case interface_facts of
        JDict f \<Rightarrow> vlan_source_ok known (map_of f ''applied_vlan_trunks'') \<and>
                   vlan_source_ok known (map_of f ''applied_vlan_tag'')
      | _ \<Rightarrow> False)"

text \<open>An entry after \<open>interface\<close> was appended once for every occurrence of \<open>n\<close> in \<open>ids\<close>.\<close>

definition with_interfaces :: "string \<Rightarrow> int list \<Rightarrow> int \<Rightarrow> vlan_entry \<Rightarrow> vlan_entry" where
  "with_interfaces interface ids n e =
     VlanEntry (vlan_name e) (vlan_interfaces e @ replicate (count_list ids n) interface)"

text \<open>The example of the spec: VLANs 10 and 20, and port 1/1/1 tagged with VLAN 10; and an
  interface without a \<open>/\<close> in its name, tagged with VLAN 20, which is not scanned.\<close>

definition ex_vlan_list :: dict where
  "ex_vlan_list = [(''10'', JDict [(''name'', JStr ''default'')]),
                   (''20'', JDict [(''name'', JStr ''data'')])]"

definition ex_vlan_interfaces :: dict where
  "ex_vlan_interfaces =
     [(''1/1/1'', JDict [(''applied_vlan_tag'', JDict [(''10'', JStr ''/rest/v10.04/system/vlans/10'')])]),
      (''vlan20'', JDict [(''applied_vlan_tag'', JDict [(''20'', JStr ''/rest/v10.04/system/vlans/20'')])])]"

section \<open>Subsystem lookups and get_facts\<close>

text \<open>
  The \<open>Device\<close> object of the SDK after \<open>switch.get()\<close> and \<open>switch.get_subsystems()\<close>,
  as far as the driver reads it.
\<close>

record device =
  boot_time :: jv
  subsystems :: jv
  mgmt_intf_status :: jv
  software_info :: jv

text \<open>\<^verbatim>\<open>keys = ['management_module,1/1', 'chassis,1']\<close>.\<close>

definition candidate_keys :: "string list" where
  "candidate_keys = [''management_module,1/1'', ''chassis,1'']"

text \<open>
  The loop the four lookups share:
  \<^verbatim>\<open>for key in keys: if len(probe(subsystems[key])) > 0: result = pick(subsystems[key]); break\<close>.
  The result is \<open>None\<close> when the loop ends without a \<open>break\<close>.
\<close>

fun subsystem_scan ::
  "jv \<Rightarrow> (jv \<Rightarrow> error + jv) \<Rightarrow> (jv \<Rightarrow> error + jv) \<Rightarrow> string list \<Rightarrow> error + jv option" where
  "subsystem_scan subs probe pick [] = Inr None"
| "subsystem_scan subs probe pick (key # keys) =
     ebind (py_getitem subs key) (\<lambda>subsystem.
     ebind (probe subsystem) (\<lambda>v.
     ebind (py_len v) (\<lambda>n.
       if n > 0
       then ebind (py_getitem subs key) (\<lambda>subsystem'.
            ebind (pick subsystem') (\<lambda>r. Inr (Some r)))
       else subsystem_scan subs probe pick keys)))"

text \<open>
  The three helpers return a local variable that only the loop assigns: when no candidate
  has data, Python raises UnboundLocalError. The argument \<open>dev\<close> is the outcome of
  creating the \<open>Device\<close> and fetching it: the device, or the exception raised.
\<close>

definition get_fan_info :: "error + device \<Rightarrow> error + jv" where
  "get_fan_info dev =
     ebind dev (\<lambda>switch.
     ebind (subsystem_scan (subsystems switch) (\<lambda>s. py_getitem s ''fans'')
              (\<lambda>s. py_getitem s ''fans'') candidate_keys) (\<lambda>found.
       case found of None \<Rightarrow> Inl (UnboundLocalError ''fan_info_dict'')
                   | Some fan_info_dict \<Rightarrow> Inr fan_info_dict))"

definition get_power_supplies :: "error + device \<Rightarrow> error + jv" where
  "get_power_supplies dev =
     ebind dev (\<lambda>switch.
     ebind (subsystem_scan (subsystems switch) (\<lambda>s. py_getitem s ''power_supplies'')
              (\<lambda>s. py_getitem s ''power_supplies'') candidate_keys) (\<lambda>found.
       case found of None \<Rightarrow> Inl (UnboundLocalError ''power_supply_dict'')
                   | Some power_supply_dict \<Rightarrow> Inr power_supply_dict))"

definition get_resource_utilization :: "error + device \<Rightarrow> error + jv" where
  "get_resource_utilization dev =
     ebind dev (\<lambda>switch.
     ebind (subsystem_scan (subsystems switch) (\<lambda>s. py_getitem s ''resource_utilization'')
              (\<lambda>s. py_getitem s ''resource_utilization'') candidate_keys) (\<lambda>found.
       case found of None \<Rightarrow> Inl (UnboundLocalError ''resources_dict'')
                   | Some resources_dict \<Rightarrow> Inr resources_dict))"

text \<open>\<open>now - v\<close> for the integer \<open>now\<close>.\<close>

definition py_int_minus :: "int \<Rightarrow> jv \<Rightarrow> error + jv" where
  "py_int_minus now v =
     (case v of
        JInt b \<Rightarrow> Inr (JInt (now - b))
      | JBool b \<Rightarrow> Inr (JInt (now - (if b then 1 else 0)))
      | JFloat r \<Rightarrow> Inr (JFloat (of_int now - r))
      | _ \<Rightarrow> Inl TypeError)"

text \<open>\<open>a + b\<close> as the driver uses it, on strings; any other pair it can meet here raises.\<close>

definition py_add_str :: "jv \<Rightarrow> jv \<Rightarrow> error + jv" where
  "py_add_str a b =
     (case (a, b) of (JStr x, JStr y) \<Rightarrow> Inr (JStr (x @ y)) | _ \<Rightarrow> Inl TypeError)"

text \<open>
  \<open>now\<close> is \<^verbatim>\<open>int(time.time())\<close>, \<open>dev\<close> the outcome of fetching the device and
  \<open>interface_fetch\<close> that of \<^verbatim>\<open>Interface.get_all(self.session)\<close>, a dict of which only the
  keys are read. \<open>product_info\<close> starts as the empty dict and stays so when no candidate
  has a serial number.
\<close>

definition get_facts :: "int \<Rightarrow> error + device \<Rightarrow> error + (string \<times> 'i) list \<Rightarrow> error + jv" where
  "get_facts now dev interface_fetch =
     ebind dev (\<lambda>switch.
     ebind (py_int_minus now (boot_time switch)) (\<lambda>uptime_seconds.
     ebind interface_fetch (\<lambda>interface_list.
     ebind (subsystem_scan (subsystems switch)
              (\<lambda>s. ebind (py_getitem s ''product_info'') (\<lambda>p. py_getitem p ''serial_number''))
              (\<lambda>s. py_getitem s ''product_info'') candidate_keys) (\<lambda>found.
     ebind (Inr (case found of None \<Rightarrow> JDict [] | Some p \<Rightarrow> p)) (\<lambda>product_info.
     ebind (py_in ''hostname'' (mgmt_intf_status switch)) (\<lambda>has_hostname.
     ebind (if \<not> has_hostname then Inr (JStr ''ArubaCX'')
            else py_getitem (mgmt_intf_status switch) ''hostname'') (\<lambda>hostname.
     ebind (py_in ''domain_name'' (mgmt_intf_status switch)) (\<lambda>has_domain.
     ebind (if \<not> has_domain then Inr (JStr [])
            else py_getitem (mgmt_intf_status switch) ''domain_name'') (\<lambda>domain_name.
     ebind (if domain_name = JNull then Inr False
            else ebind (py_len domain_name) (\<lambda>n. Inr (n > 0))) (\<lambda>qualified.
     ebind (if qualified
            then ebind (py_add_str hostname (JStr ''.'')) (\<lambda>h. py_add_str h domain_name)
            else Inr hostname) (\<lambda>fqdn.
     ebind (py_getitem (software_info switch) ''build_id'') (\<lambda>os_version.
     ebind (py_getitem product_info ''serial_number'') (\<lambda>serial_number.
     ebind (py_getitem product_info ''product_name'') (\<lambda>model.
       Inr (JDict
         [(''uptime'', uptime_seconds),
          (''vendor'', JStr ''Aruba''),
          (''os_version'', os_version),
          (''serial_number'', serial_number),
          (''model'', model),
          (''hostname'', hostname),
          (''fqdn'', fqdn),
          (''interface_list'', JList (map (\<lambda>kv. JStr (fst kv)) interface_list))])))))))))))))))"

text \<open>
  The fallback rule in the spec's words, for the sub-field \<open>a\<close> of the management-module
  record and \<open>b\<close> of the chassis record: the first of the two, in that order, that is
  non-empty. \<open>sized\<close> are the values \<open>len\<close> accepts (strings, lists, dicts).
\<close>

definition sized :: "jv \<Rightarrow> bool" where
  "sized v = (case py_len v of Inr _ \<Rightarrow> True | Inl _ \<Rightarrow> False)"

definition nonempty :: "jv \<Rightarrow> bool" where
  "nonempty v = (case py_len v of Inr n \<Rightarrow> n > 0 | Inl _ \<Rightarrow> False)"

definition first_nonempty :: "jv \<Rightarrow> jv \<Rightarrow> jv option" where
  "first_nonempty a b = (if nonempty a then Some a else if nonempty b then Some b else None)"

text \<open>
  The rest of what \<open>get_facts\<close> reads, on a device it returns for: an integer boot time, a
  build id, and a management-interface status whose host name is absent or a string and
  whose domain name is absent, null or a string.
\<close>

definition facts_ready :: "device \<Rightarrow> bool" where
  "facts_ready switch =
     ((case boot_time switch of JInt _ \<Rightarrow> True | _ \<Rightarrow> False) \<and>
      (case py_getitem (software_info switch) ''build_id'' of Inr _ \<Rightarrow> True | Inl _ \<Rightarrow> False) \<and>
      (case mgmt_intf_status switch of
         JDict ms \<Rightarrow>
           (case map_of ms ''hostname'' of None \<Rightarrow> True | Some (JStr _) \<Rightarrow> True | _ \<Rightarrow> False) \<and>
           (case map_of ms ''domain_name'' of
              None \<Rightarrow> True | Some JNull \<Rightarrow> True | Some (JStr _) \<Rightarrow> True | _ \<Rightarrow> False)
       | _ \<Rightarrow> False))"

text \<open>
  A switch whose management module reports no serial number, no fans and no power supplies,
  so that the chassis record is used; and its resource utilization, which the management
  module does report.
\<close>

definition ex_switch :: device where
  "ex_switch =
     \<lparr>boot_time = JInt 1000,
      subsystems = JDict
        [(''management_module,1/1'', JDict
           [(''product_info'', JDict [(''serial_number'', JStr []), (''product_name'', JStr [])]),
            (''fans'', JDict []),
            (''power_supplies'', JDict []),
            (''resource_utilization'', JDict [(''cpu'', JInt 7), (''memory'', JInt 31)])]),
         (''chassis,1'', JDict
           [(''product_info'', JDict [(''serial_number'', JStr ''SG01''),
                                     (''product_name'', JStr ''6300M'')]),
            (''fans'', JDict [(''1/1/1'', JDict [(''status'', JStr ''ok'')])]),
            (''power_supplies'', JDict [(''1/1'', JDict [(''status'', JStr ''ok'')])]),
            (''resource_utilization'', JDict [])])],
      mgmt_intf_status = JDict [(''hostname'', JStr ''sw1''), (''domain_name'', JStr ''lab'')],
      software_info = JDict [(''build_id'', JStr ''FL.10.09'')]\<rparr>"

text \<open>A switch on which neither candidate has any data.\<close>

definition ex_bare_switch :: device where
  "ex_bare_switch =
     \<lparr>boot_time = JInt 1000,
      subsystems = JDict
        [(''management_module,1/1'', JDict
           [(''product_info'', JDict [(''serial_number'', JStr [])]),
            (''fans'', JDict []), (''power_supplies'', JDict []),
            (''resource_utilization'', JDict [])]),
         (''chassis,1'', JDict
           [(''product_info'', JDict [(''serial_number'', JStr [])]),
            (''fans'', JDict []), (''power_supplies'', JDict []),
            (''resource_utilization'', JDict [])])],
      mgmt_intf_status = JDict [],
      software_info = JDict [(''build_id'', JStr ''FL.10.09'')]\<rparr>"

section \<open>get_lldp_neighbors_detail\<close>

text \<open>\<open>d.get(k, dflt)\<close>: an AttributeError on anything but a dict.\<close>

definition py_get :: "jv \<Rightarrow> string \<Rightarrow> jv \<Rightarrow> error + jv" where
  "py_get d k dflt =
     (case d of
        JDict kvs \<Rightarrow> Inr (case map_of kvs k of None \<Rightarrow> dflt | Some v \<Rightarrow> v)
      | _ \<Rightarrow> Inl AttributeError)"

text \<open>\<open>d.items()\<close>.\<close>

definition py_items :: "jv \<Rightarrow> error + dict" where
  "py_items d = (case d of JDict kvs \<Rightarrow> Inr kvs | _ \<Rightarrow> Inl AttributeError)"

text \<open>
  \<open>s.lower()\<close> on ASCII text; a string with a byte outside ASCII is outside the model.
\<close>

definition lower_char :: "char \<Rightarrow> char" where
  "lower_char c =
     (if 65 \<le> char_code c \<and> char_code c \<le> 90 then char_of (char_code c + 32) else c)"

definition py_lower :: "string \<Rightarrow> error + string" where
  "py_lower s =
     (if list_ex (\<lambda>c. 128 \<le> char_code c) s then Inl (Unmodelled ''str.lower'')
      else Inr (map lower_char s))"

text \<open>\<^verbatim>\<open>''.join(x.lower() for x in v)\<close>: an element that is not a string has no \<open>lower\<close>.\<close>

definition caps_string :: "jv \<Rightarrow> error + jv" where
  "caps_string v =
     ebind (py_iter v) (\<lambda>xs.
     ebind (efold (\<lambda>x joined.
                     case x of
                       JStr s \<Rightarrow> ebind (py_lower s) (\<lambda>l. Inr (joined @ l))
                     | _ \<Rightarrow> Inl AttributeError) xs []) (\<lambda>joined.
       Inr (JStr joined)))"

text \<open>The body of the inner loop: the entry of one neighbour.\<close>

definition neighbor_entry :: "string \<Rightarrow> jv \<Rightarrow> error + jv" where
  "neighbor_entry decoded_intf nbr_data =
     ebind (py_get nbr_data ''neighbor_info'' (JDict [])) (\<lambda>ni.
     ebind (py_get ni ''chassis_capability_available'' (JList [])) (\<lambda>available.
     ebind (caps_string available) (\<lambda>caps_avail.
     ebind (py_get ni ''chassis_capability_enabled'' (JList [])) (\<lambda>enabled.
     ebind (caps_string enabled) (\<lambda>caps_enabled.
     ebind (py_get nbr_data ''chassis_id'' (JStr [])) (\<lambda>chassis_id.
     ebind (py_get ni ''chassis_name'' (JStr [])) (\<lambda>chassis_name.
     ebind (py_get nbr_data ''port_id'' (JStr [])) (\<lambda>port_id.
     ebind (py_get ni ''port_description'' (JStr [])) (\<lambda>port_description.
     ebind (py_get ni ''chassis_description'' (JStr [])) (\<lambda>chassis_description.
       Inr (JDict
         [(''parent_interface'', JStr decoded_intf),
          (''remote_chassis_id'', chassis_id),
          (''remote_system_name'', chassis_name),
          (''remote_port'', port_id),
          (''remote_port_description'', port_description),
          (''remote_system_description'', chassis_description),
          (''remote_system_capab'', caps_avail),
          (''remote_system_enable_capab'', caps_enabled)])))))))))))"

text \<open>The list \<open>entries\<close> of one interface.\<close>

definition neighbor_entries :: "string \<Rightarrow> jv \<Rightarrow> error + jv list" where
  "neighbor_entries decoded_intf interface_details =
     ebind (py_items interface_details) (\<lambda>neighbors.
       efold (\<lambda>kv entries.
                ebind (neighbor_entry decoded_intf (snd kv)) (\<lambda>entry. Inr (entries @ [entry])))
             neighbors [])"

text \<open>
  The body of the outer loop for one raw key: the same list is stored under the decoded
  name, under its slug and under the display name \<^verbatim>\<open>f"Int {decoded_intf}"\<close>, in this order.
\<close>

definition publish_interface ::
  "(string \<Rightarrow> string) \<Rightarrow> (string \<Rightarrow> string) \<Rightarrow> dict \<Rightarrow> string \<Rightarrow> dict \<Rightarrow> error + dict" where
  "publish_interface unquote slugify raw_lldp raw_key lldp_details_return =
     ebind (py_get (JDict raw_lldp) raw_key (JDict [])) (\<lambda>interface_details.
     ebind (neighbor_entries (unquote raw_key) interface_details) (\<lambda>entries.
       Inr (AList.update (''Int '' @ unquote raw_key) (JList entries)
           (AList.update (slugify (unquote raw_key)) (JList entries)
           (AList.update (unquote raw_key) (JList entries) lldp_details_return)))))"

text \<open>
  \<^verbatim>\<open>decoded_map = {unquote(raw): raw for raw in raw_lldp.keys()}\<close>: a later raw key with the
  same decoded name replaces an earlier one.
\<close>

definition decoded_map :: "(string \<Rightarrow> string) \<Rightarrow> dict \<Rightarrow> (string \<times> string) list" where
  "decoded_map unquote raw_lldp =
     foldl (\<lambda>m raw. AList.update (unquote raw) raw m) [] (map fst raw_lldp)"

text \<open>
  \<open>unquote\<close> and \<open>slugify\<close> are the functions the environment provides
  (\<^verbatim>\<open>urllib.parse.unquote\<close> and Django's \<open>slugify\<close>, or the fallbacks of the source when
  an import fails). \<open>fetched\<close> is the outcome of \<^verbatim>\<open>LLDPNeighbor.get_facts(self.session)\<close>;
  the \<open>try\<close>/\<open>except Exception\<close> around it turns any exception into the empty result.
\<close>

definition get_lldp_neighbors_detail ::
  "(string \<Rightarrow> string) \<Rightarrow> (string \<Rightarrow> string) \<Rightarrow> error + dict \<Rightarrow> string \<Rightarrow> error + dict" where
  "get_lldp_neighbors_detail unquote slugify fetched interface =
     (case fetched of
        Inl e \<Rightarrow> Inr []
      | Inr raw_lldp \<Rightarrow>
          if interface \<noteq> []
          then (if interface \<notin> set (map fst (decoded_map unquote raw_lldp)) then Inr []
                else (case map_of (decoded_map unquote raw_lldp) interface of
                        None \<Rightarrow> Inl (KeyError interface)
                      | Some raw \<Rightarrow>
                          efold (publish_interface unquote slugify raw_lldp) [raw] []))
          else efold (publish_interface unquote slugify raw_lldp) (map fst raw_lldp) [])"

text \<open>
  The fallback \<open>slugify\<close> of the source,
  \<^verbatim>\<open>re.sub(r'[^\w]+', '-', x).strip('-').lower()\<close>, on ASCII text: every run of
  characters other than letters, digits and \<open>_\<close> becomes one \<open>-\<close> (\<open>in_run\<close> says
  that the run has begun), a leading and a trailing \<open>-\<close> are removed, and the rest is
  lower-cased.
\<close>

definition word_char :: "char \<Rightarrow> bool" where
  "word_char c =
     (is_digit c \<or> (65 \<le> char_code c \<and> char_code c \<le> 90) \<or>
      (97 \<le> char_code c \<and> char_code c \<le> 122) \<or> c = CHR ''_'')"

fun sub_nonword :: "bool \<Rightarrow> string \<Rightarrow> string" where
  "sub_nonword in_run [] = []"
| "sub_nonword in_run (c # s) =
     (if word_char c then c # sub_nonword False s
      else if in_run then sub_nonword True s
      else CHR ''-'' # sub_nonword True s)"

definition strip_dash :: "string \<Rightarrow> string" where
  "strip_dash s =
     rev (dropWhile (\<lambda>c. c = CHR ''-'') (rev (dropWhile (\<lambda>c. c = CHR ''-'') s)))"

definition slugify_fallback :: "string \<Rightarrow> string" where
  "slugify_fallback x = map lower_char (strip_dash (sub_nonword False x))"

text \<open>
  \<^verbatim>\<open>urllib.parse.unquote\<close> on escapes below \<open>%80\<close>: \<open>%XY\<close> with two hexadecimal digits
  becomes the character with that code, and a \<open>%\<close> not followed by two hexadecimal digits
  stays. (Escapes from \<open>%80\<close> on are bytes of UTF-8 text in Python; they are left as
  written here.)
\<close>

definition hex_value :: "char \<Rightarrow> nat option" where
  "hex_value c =
     (if is_digit c then Some (char_code c - 48)
      else if 65 \<le> char_code c \<and> char_code c \<le> 70 then Some (char_code c - 55)
      else if 97 \<le> char_code c \<and> char_code c \<le> 102 then Some (char_code c - 87)
      else None)"

fun unquote_ascii :: "string \<Rightarrow> string" where
  "unquote_ascii (c # a # b # s) =
     (if c = CHR ''%''
      then (case (hex_value a, hex_value b) of
              (Some h, Some l) \<Rightarrow>
                if 16 * h + l < 128 then char_of (16 * h + l) # unquote_ascii s
                else c # unquote_ascii (a # b # s)
            | _ \<Rightarrow> c # unquote_ascii (a # b # s))
      else c # unquote_ascii (a # b # s))"
| "unquote_ascii s = s"

text \<open>
  The example of the spec: one neighbour on the interface whose raw key is
  \<open>1%2F1%2F1\<close>, and a second interface.
\<close>

definition ex_raw_lldp :: dict where
  "ex_raw_lldp =
     [(''1%2F1%2F1'', JDict
         [(''00:11:22:33:44:55,1/1/9'', JDict
            [(''chassis_id'', JStr ''00:11:22:33:44:55''),
             (''port_id'', JStr ''1/1/9''),
             (''neighbor_info'', JDict
                [(''chassis_name'', JStr ''core1''),
                 (''chassis_capability_available'', JList [JStr ''Bridge'', JStr ''Router'']),
                 (''chassis_capability_enabled'', JList [JStr ''Bridge''])])])]),
      (''1%2F1%2F2'', JDict [])]"

definition ex_lldp_entries :: "jv list" where
  "ex_lldp_entries =
     [JDict
        [(''parent_interface'', JStr ''1/1/1''),
         (''remote_chassis_id'', JStr ''00:11:22:33:44:55''),
         (''remote_system_name'', JStr ''core1''),
         (''remote_port'', JStr ''1/1/9''),
         (''remote_port_description'', JStr []),
         (''remote_system_description'', JStr []),
         (''remote_system_capab'', JStr ''bridgerouter''),
         (''remote_system_enable_capab'', JStr ''bridge'')]]"

section \<open>Monadic plumbing and loops that store one entry per key\<close>

lemma ebind_Inr [simp]: "ebind (Inr x) f = f x"
  by (simp add: ebind_def)

lemma ebind_Inl [simp]: "ebind (Inl e) f = Inl e"
  by (simp add: ebind_def)

lemma ebind_eq_Inr: "ebind m f = Inr y \<longleftrightarrow> (\<exists>x. m = Inr x \<and> f x = Inr y)"
  by (cases m) simp_all

lemma efold_update_other:
  "efold (\<lambda>(k, v) acc. ebind (f v) (\<lambda>e. Inr (AList.update k e acc))) items acc0 = Inr out
   \<Longrightarrow> k \<notin> fst ` set items \<Longrightarrow> map_of out k = map_of acc0 k"
proof (induction items arbitrary: acc0)
  case Nil
  then show ?case by simp
next
  case (Cons a items)
  obtain k' v' where a: "a = (k', v')" by (cases a)
  from Cons.prems(1) obtain e where e: "f v' = Inr e"
    and rest: "efold (\<lambda>(k, v) acc. ebind (f v) (\<lambda>e. Inr (AList.update k e acc))) items
                 (AList.update k' e acc0) = Inr out"
    by (cases "f v'") (simp_all add: a)
  from Cons.prems(2) have "k \<noteq> k'" "k \<notin> fst ` set items" by (auto simp: a)
  with Cons.IH [OF rest] show ?case by (simp add: update_conv')
qed

lemma efold_update_lookup:
  "efold (\<lambda>(k, v) acc. ebind (f v) (\<lambda>e. Inr (AList.update k e acc))) items acc0 = Inr out
   \<Longrightarrow> distinct (map fst items) \<Longrightarrow> (k, v) \<in> set items
   \<Longrightarrow> \<exists>e. f v = Inr e \<and> map_of out k = Some e"
proof (induction items arbitrary: acc0)
  case Nil
  then show ?case by simp
next
  case (Cons a items)
  obtain k' v' where a: "a = (k', v')" by (cases a)
  from Cons.prems(1) obtain e where e: "f v' = Inr e"
    and rest: "efold (\<lambda>(k, v) acc. ebind (f v) (\<lambda>e. Inr (AList.update k e acc))) items
                 (AList.update k' e acc0) = Inr out"
    by (cases "f v'") (simp_all add: a)
  show ?case
  proof (cases "(k, v) \<in> set items")
    case True
    with Cons.IH [OF rest] Cons.prems(2) show ?thesis by simp
  next
    case False
    with Cons.prems(3) have kv: "k = k'" "v = v'" by (simp_all add: a)
    from Cons.prems(2) have "k' \<notin> fst ` set items" by (simp add: a)
    from efold_update_other [OF rest this] e kv show ?thesis by (simp add: update_conv')
  qed
qed

lemma efold_update_total:
  "\<forall>(k, v) \<in> set items. \<exists>e. f v = Inr e \<Longrightarrow>
   \<exists>out. efold (\<lambda>(k, v) acc. ebind (f v) (\<lambda>e. Inr (AList.update k e acc))) items acc0 = Inr out"
proof (induction items arbitrary: acc0)
  case Nil
  then show ?case by simp
next
  case (Cons a items)
  obtain k' v' where a: "a = (k', v')" by (cases a)
  from Cons.prems obtain e where e: "f v' = Inr e" by (auto simp: a)
  from Cons.prems have "\<forall>(k, v) \<in> set items. \<exists>e. f v = Inr e" by simp
  from Cons.IH [OF this, of "AList.update k' e acc0"] e show ?case by (simp add: a)
qed

lemma efold_update_keys:
  "efold (\<lambda>(k, v) acc. ebind (f v) (\<lambda>e. Inr (AList.update k e acc))) items acc0 = Inr out
   \<Longrightarrow> distinct (map fst acc0 @ map fst items)
   \<Longrightarrow> map fst out = map fst acc0 @ map fst items"
proof (induction items arbitrary: acc0)
  case Nil
  then show ?case by simp
next
  case (Cons a items)
  obtain k' v' where a: "a = (k', v')" by (cases a)
  from Cons.prems(1) obtain e where e: "f v' = Inr e"
    and rest: "efold (\<lambda>(k, v) acc. ebind (f v) (\<lambda>e. Inr (AList.update k e acc))) items
                 (AList.update k' e acc0) = Inr out"
    by (cases "f v'") (simp_all add: a)
  from Cons.prems(2) have k': "k' \<notin> set (map fst acc0)" by (auto simp: a)
  then have keys: "map fst (AList.update k' e acc0) = map fst acc0 @ [k']"
    by (simp add: update_keys)
  from Cons.prems(2) have "distinct (map fst (AList.update k' e acc0) @ map fst items)"
    by (simp add: keys a)
  from Cons.IH [OF rest this] show ?case by (simp add: keys a)
qed

lemma efold_append:
  "list_all2 (\<lambda>x y. f x = Inr y) xs ys \<Longrightarrow>
   efold (\<lambda>x acc. ebind (f x) (\<lambda>e. Inr (acc @ [e]))) xs acc0 = Inr (acc0 @ ys)"
proof (induction xs arbitrary: ys acc0)
  case Nil
  then show ?case by simp
next
  case (Cons x xs)
  then obtain y ys' where ys: "ys = y # ys'" "f x = Inr y"
    "list_all2 (\<lambda>x y. f x = Inr y) xs ys'"
    by (auto simp: list_all2_Cons1)
  from Cons.IH [OF ys(3), of "acc0 @ [y]"] ys(1,2) show ?case by simp
qed

lemma list_all2_results:
  "\<forall>x \<in> set xs. \<exists>y. f x = Inr y \<Longrightarrow> \<exists>ys. list_all2 (\<lambda>x y. f x = Inr y) xs ys"
  by (induction xs) (auto simp: list_all2_Cons1)

lemma in_keys_iff: "k \<in> fst ` set d \<longleftrightarrow> map_of d k \<noteq> None"
  by (simp add: map_of_eq_None_iff)

lemma py_getitem_InrD:
  "py_getitem details k = Inr v \<Longrightarrow> \<exists>d. details = JDict d \<and> map_of d k = Some v"
  by (cases details) (auto simp: py_getitem_def split: option.splits)

section \<open>Subsystem fallback\<close>

lemma scan_two:
  assumes mm: "py_getitem subs k1 = Inr mm" and ch: "py_getitem subs k2 = Inr ch"
    and pa: "probe mm = Inr a" and pb: "probe ch = Inr b"
    and sa: "sized a" and sb: "sized b"
  shows "subsystem_scan subs probe pick [k1, k2] =
     (if nonempty a then ebind (pick mm) (\<lambda>r. Inr (Some r))
      else if nonempty b then ebind (pick ch) (\<lambda>r. Inr (Some r))
      else Inr None)"
proof -
  from sa obtain n where n: "py_len a = Inr n" by (auto simp: sized_def split: sum.splits)
  from sb obtain m where m: "py_len b = Inr m" by (auto simp: sized_def split: sum.splits)
  show ?thesis by (simp add: mm ch pa pb n m nonempty_def)
qed

lemma field_fallback:
  assumes mm: "py_getitem subs ''management_module,1/1'' = Inr mm"
    and ch: "py_getitem subs ''chassis,1'' = Inr ch"
    and pa: "py_getitem mm field = Inr a" and pb: "py_getitem ch field = Inr b"
    and sa: "sized a" and sb: "sized b"
  shows "subsystem_scan subs (\<lambda>s. py_getitem s field) (\<lambda>s. py_getitem s field) candidate_keys
         = Inr (first_nonempty a b)"
proof -
  have "subsystem_scan subs (\<lambda>s. py_getitem s field) (\<lambda>s. py_getitem s field)
          [''management_module,1/1'', ''chassis,1''] =
     (if nonempty a then ebind (py_getitem mm field) (\<lambda>r. Inr (Some r))
      else if nonempty b then ebind (py_getitem ch field) (\<lambda>r. Inr (Some r))
      else Inr None)"
    by (rule scan_two [OF mm ch pa pb sa sb])
  then show ?thesis
    unfolding candidate_keys_def
    by (simp add: first_nonempty_def pa pb del: subsystem_scan.simps)
qed

lemma py_add_str_str: "py_add_str (JStr x) (JStr y) = Inr (JStr (x @ y))"
  by (simp add: py_add_str_def)

lemma get_facts_picked:
  fixes interface_list :: "(string \<times> 'i) list"
  assumes scan: "subsystem_scan (subsystems switch)
              (\<lambda>s. ebind (py_getitem s ''product_info'') (\<lambda>p. py_getitem p ''serial_number''))
              (\<lambda>s. py_getitem s ''product_info'') candidate_keys = Inr (Some p)"
    and fr: "facts_ready switch"
    and sn: "py_getitem p ''serial_number'' = Inr s"
    and pn: "py_getitem p ''product_name'' = Inr m"
  shows "\<exists>out. get_facts now (Inr switch) (Inr interface_list) = Inr (JDict out) \<and>
     map_of out ''serial_number'' = Some s \<and> map_of out ''model'' = Some m"
proof -
  from fr obtain b where b: "boot_time switch = JInt b"
    by (auto simp: facts_ready_def split: jv.splits)
  from fr obtain os where os: "py_getitem (software_info switch) ''build_id'' = Inr os"
    by (auto simp: facts_ready_def split: sum.splits)
  from fr obtain ms where ms: "mgmt_intf_status switch = JDict ms"
    by (auto simp: facts_ready_def split: jv.splits)
  from fr ms have h: "map_of ms ''hostname'' = None \<or> (\<exists>h. map_of ms ''hostname'' = Some (JStr h))"
    by (auto simp: facts_ready_def split: option.splits jv.splits)
  from fr ms have d: "map_of ms ''domain_name'' = None \<or> map_of ms ''domain_name'' = Some JNull \<or>
      (\<exists>d. map_of ms ''domain_name'' = Some (JStr d))"
    by (auto simp: facts_ready_def split: option.splits jv.splits)
  define hn where "hn = (case map_of ms ''hostname'' of Some (JStr h) \<Rightarrow> h | _ \<Rightarrow> ''ArubaCX'')"
  have hn: "ebind (py_in ''hostname'' (mgmt_intf_status switch)) (\<lambda>has_hostname.
     ebind (if \<not> has_hostname then Inr (JStr ''ArubaCX'')
            else py_getitem (mgmt_intf_status switch) ''hostname'') f) = f (JStr hn)"
    for f :: "jv \<Rightarrow> error + jv"
    using h unfolding ms hn_def
    by (auto simp: py_in_def py_getitem_def in_keys_iff)
  define fq where "fq = (case map_of ms ''domain_name'' of
      Some (JStr d) \<Rightarrow> if d \<noteq> [] then hn @ ''.'' @ d else hn | _ \<Rightarrow> hn)"
  have fq: "ebind (py_in ''domain_name'' (mgmt_intf_status switch)) (\<lambda>has_domain.
     ebind (if \<not> has_domain then Inr (JStr [])
            else py_getitem (mgmt_intf_status switch) ''domain_name'') (\<lambda>domain_name.
     ebind (if domain_name = JNull then Inr False
            else ebind (py_len domain_name) (\<lambda>n. Inr (n > 0))) (\<lambda>qualified.
     ebind (if qualified
            then ebind (py_add_str (JStr hn) (JStr ''.'')) (\<lambda>h. py_add_str h domain_name)
            else Inr (JStr hn)) f))) = f (JStr fq)" for f :: "jv \<Rightarrow> error + jv"
    using d unfolding ms fq_def
    by (auto simp: py_in_def py_getitem_def in_keys_iff py_len_def py_add_str_str)
  show ?thesis
    by (simp add: get_facts_def b py_int_minus_def scan hn fq os sn pn)
qed

lemma get_facts_unpicked:
  assumes scan: "subsystem_scan (subsystems switch)
              (\<lambda>s. ebind (py_getitem s ''product_info'') (\<lambda>p. py_getitem p ''serial_number''))
              (\<lambda>s. py_getitem s ''product_info'') candidate_keys = Inr None"
  shows "\<exists>e. get_facts now (Inr switch) interface_fetch = Inl e"
proof (cases "get_facts now (Inr switch) interface_fetch")
  case (Inl e)
  then show ?thesis by blast
next
  case (Inr x)
  have nil: "py_getitem (JDict []) k = Inl (KeyError k)" for k
    by (simp add: py_getitem_def)
  from Inr have False
    by (auto simp add: get_facts_def ebind_eq_Inr scan nil)
  then show ?thesis ..
qed

lemma product_fallback:
  assumes mm: "py_getitem subs ''management_module,1/1'' = Inr mm"
    and ch: "py_getitem subs ''chassis,1'' = Inr ch"
    and pa: "py_getitem mm ''product_info'' = Inr pa" and pb: "py_getitem ch ''product_info'' = Inr pb"
    and sa: "py_getitem pa ''serial_number'' = Inr a" and sb: "py_getitem pb ''serial_number'' = Inr b"
    and za: "sized a" and zb: "sized b"
  shows "subsystem_scan subs
              (\<lambda>s. ebind (py_getitem s ''product_info'') (\<lambda>p. py_getitem p ''serial_number''))
              (\<lambda>s. py_getitem s ''product_info'') candidate_keys
         = Inr (if nonempty a then Some pa else if nonempty b then Some pb else None)"
proof -
  have "subsystem_scan subs
              (\<lambda>s. ebind (py_getitem s ''product_info'') (\<lambda>p. py_getitem p ''serial_number''))
              (\<lambda>s. py_getitem s ''product_info'')
          [''management_module,1/1'', ''chassis,1''] =
     (if nonempty a then ebind (py_getitem mm ''product_info'') (\<lambda>r. Inr (Some r))
      else if nonempty b then ebind (py_getitem ch ''product_info'') (\<lambda>r. Inr (Some r))
      else Inr None)"
    by (rule scan_two [OF mm ch _ _ za zb]) (simp_all add: pa pb sa sb)
  then show ?thesis
    unfolding candidate_keys_def
    by (simp add: pa pb del: subsystem_scan.simps)
qed

text \<open>
  Claim C1. Let the device have a management-module record \<open>mm\<close> and a chassis record
  \<open>ch\<close> among its subsystems. For the fan, power-supply and resource-utilization lookups:
  when both records carry the sub-field with a value \<open>len\<close> accepts, the lookup returns
  the management module's value if it is non-empty, else the chassis' value if that is
  non-empty, and else raises UnboundLocalError: it returns no value. For \<open>get_facts\<close> the
  tested sub-field is \<open>product_info['serial_number']\<close>: when neither serial number is
  non-empty the operation raises; otherwise, on a device that is ready in the rest of what
  the operation reads, it returns the facts with the serial number found first and the
  product name of the same record as the model.
\<close>

theorem subsystem_fallback:
  fixes interface_fetch :: "error + (string \<times> 'i) list"
  assumes mm: "py_getitem (subsystems switch) ''management_module,1/1'' = Inr mm"
    and ch: "py_getitem (subsystems switch) ''chassis,1'' = Inr ch"
  shows
   "(\<forall>a b. py_getitem mm ''fans'' = Inr a \<longrightarrow> py_getitem ch ''fans'' = Inr b \<longrightarrow>
        sized a \<longrightarrow> sized b \<longrightarrow>
        get_fan_info (Inr switch) =
          (case first_nonempty a b of
             Some v \<Rightarrow> Inr v | None \<Rightarrow> Inl (UnboundLocalError ''fan_info_dict''))) \<and>
    (\<forall>a b. py_getitem mm ''power_supplies'' = Inr a \<longrightarrow>
        py_getitem ch ''power_supplies'' = Inr b \<longrightarrow> sized a \<longrightarrow> sized b \<longrightarrow>
        get_power_supplies (Inr switch) =
          (case first_nonempty a b of
             Some v \<Rightarrow> Inr v | None \<Rightarrow> Inl (UnboundLocalError ''power_supply_dict''))) \<and>
    (\<forall>a b. py_getitem mm ''resource_utilization'' = Inr a \<longrightarrow>
        py_getitem ch ''resource_utilization'' = Inr b \<longrightarrow> sized a \<longrightarrow> sized b \<longrightarrow>
        get_resource_utilization (Inr switch) =
          (case first_nonempty a b of
             Some v \<Rightarrow> Inr v | None \<Rightarrow> Inl (UnboundLocalError ''resources_dict''))) \<and>
    (\<forall>pa pb a b. py_getitem mm ''product_info'' = Inr pa \<longrightarrow>
        py_getitem ch ''product_info'' = Inr pb \<longrightarrow>
        py_getitem pa ''serial_number'' = Inr a \<longrightarrow> py_getitem pb ''serial_number'' = Inr b \<longrightarrow>
        sized a \<longrightarrow> sized b \<longrightarrow>
        (case first_nonempty a b of
           None \<Rightarrow> (\<exists>e. get_facts now (Inr switch) interface_fetch = Inl e)
         | Some s \<Rightarrow>
             (\<forall>m il. facts_ready switch \<longrightarrow> interface_fetch = Inr il \<longrightarrow>
                py_getitem (if nonempty a then pa else pb) ''product_name'' = Inr m \<longrightarrow>
                (\<exists>out. get_facts now (Inr switch) interface_fetch = Inr (JDict out) \<and>
                   map_of out ''serial_number'' = Some s \<and> map_of out ''model'' = Some m))))"
proof (intro conjI allI impI)
  fix a b
  assume "py_getitem mm ''fans'' = Inr a" "py_getitem ch ''fans'' = Inr b" "sized a" "sized b"
  from field_fallback [OF mm ch this]
  show "get_fan_info (Inr switch) =
          (case first_nonempty a b of
             Some v \<Rightarrow> Inr v | None \<Rightarrow> Inl (UnboundLocalError ''fan_info_dict''))"
    by (simp add: get_fan_info_def)
next
  fix a b
  assume "py_getitem mm ''power_supplies'' = Inr a" "py_getitem ch ''power_supplies'' = Inr b"
    "sized a" "sized b"
  from field_fallback [OF mm ch this]
  show "get_power_supplies (Inr switch) =
          (case first_nonempty a b of
             Some v \<Rightarrow> Inr v | None \<Rightarrow> Inl (UnboundLocalError ''power_supply_dict''))"
    by (simp add: get_power_supplies_def)
next
  fix a b
  assume "py_getitem mm ''resource_utilization'' = Inr a"
    "py_getitem ch ''resource_utilization'' = Inr b" "sized a" "sized b"
  from field_fallback [OF mm ch this]
  show "get_resource_utilization (Inr switch) =
          (case first_nonempty a b of
             Some v \<Rightarrow> Inr v | None \<Rightarrow> Inl (UnboundLocalError ''resources_dict''))"
    by (simp add: get_resource_utilization_def)
next
  fix pa pb a b
  assume pa: "py_getitem mm ''product_info'' = Inr pa" and pb: "py_getitem ch ''product_info'' = Inr pb"
    and a: "py_getitem pa ''serial_number'' = Inr a" and b: "py_getitem pb ''serial_number'' = Inr b"
    and za: "sized a" and zb: "sized b"
  note scan = product_fallback [OF mm ch pa pb a b za zb]
  show "case first_nonempty a b of
           None \<Rightarrow> (\<exists>e. get_facts now (Inr switch) interface_fetch = Inl e)
         | Some s \<Rightarrow>
             (\<forall>m il. facts_ready switch \<longrightarrow> interface_fetch = Inr il \<longrightarrow>
                py_getitem (if nonempty a then pa else pb) ''product_name'' = Inr m \<longrightarrow>
                (\<exists>out. get_facts now (Inr switch) interface_fetch = Inr (JDict out) \<and>
                   map_of out ''serial_number'' = Some s \<and> map_of out ''model'' = Some m))"
  proof (cases "first_nonempty a b")
    case None
    then have "\<not> nonempty a" "\<not> nonempty b"
      by (auto simp: first_nonempty_def split: if_splits)
    with scan have "subsystem_scan (subsystems switch)
              (\<lambda>s. ebind (py_getitem s ''product_info'') (\<lambda>p. py_getitem p ''serial_number''))
              (\<lambda>s. py_getitem s ''product_info'') candidate_keys = Inr None" by simp
    from get_facts_unpicked [OF this] None show ?thesis by simp
  next
    case (Some s)
    show ?thesis
    proof (cases "nonempty a")
      case True
      with Some have s: "s = a" by (simp add: first_nonempty_def)
      from scan True have sc: "subsystem_scan (subsystems switch)
              (\<lambda>s. ebind (py_getitem s ''product_info'') (\<lambda>p. py_getitem p ''serial_number''))
              (\<lambda>s. py_getitem s ''product_info'') candidate_keys = Inr (Some pa)" by simp
      show ?thesis
        unfolding Some option.case
        using get_facts_picked [OF sc _ a] True s by auto
    next
      case False
      with Some have s: "s = b" and nb: "nonempty b"
        by (auto simp: first_nonempty_def split: if_splits)
      from scan False nb have sc: "subsystem_scan (subsystems switch)
              (\<lambda>s. ebind (py_getitem s ''product_info'') (\<lambda>p. py_getitem p ''serial_number''))
              (\<lambda>s. py_getitem s ''product_info'') candidate_keys = Inr (Some pb)" by simp
      show ?thesis
        unfolding Some option.case
        using get_facts_picked [OF sc _ b] False s by auto
    qed
  qed
qed

lemma ex_switch_mm:
  "py_getitem (subsystems ex_switch) ''management_module,1/1'' = Inr (JDict
           [(''product_info'', JDict [(''serial_number'', JStr []), (''product_name'', JStr [])]),
            (''fans'', JDict []),
            (''power_supplies'', JDict []),
            (''resource_utilization'', JDict [(''cpu'', JInt 7), (''memory'', JInt 31)])])"
  by (simp add: ex_switch_def py_getitem_def)

lemma ex_switch_ch:
  "py_getitem (subsystems ex_switch) ''chassis,1'' = Inr (JDict
           [(''product_info'', JDict [(''serial_number'', JStr ''SG01''),
                                     (''product_name'', JStr ''6300M'')]),
            (''fans'', JDict [(''1/1/1'', JDict [(''status'', JStr ''ok'')])]),
            (''power_supplies'', JDict [(''1/1'', JDict [(''status'', JStr ''ok'')])]),
            (''resource_utilization'', JDict [])])"
  by (simp add: ex_switch_def py_getitem_def)

lemma ex_switch_lookups:
  "get_fan_info (Inr ex_switch) = Inr (JDict [(''1/1/1'', JDict [(''status'', JStr ''ok'')])])"
  "get_power_supplies (Inr ex_switch) = Inr (JDict [(''1/1'', JDict [(''status'', JStr ''ok'')])])"
  "get_resource_utilization (Inr ex_switch) = Inr (JDict [(''cpu'', JInt 7), (''memory'', JInt 31)])"
  by (simp_all add: get_fan_info_def get_power_supplies_def get_resource_utilization_def
      candidate_keys_def ex_switch_def py_getitem_def py_len_def)

lemma ex_switch_facts:
  "get_facts 5000 (Inr ex_switch) (Inr [(''1/1/1'', ()), (''vlan1'', ())]) = Inr (JDict
     [(''uptime'', JInt 4000), (''vendor'', JStr ''Aruba''), (''os_version'', JStr ''FL.10.09''),
      (''serial_number'', JStr ''SG01''), (''model'', JStr ''6300M''),
      (''hostname'', JStr ''sw1''), (''fqdn'', JStr ''sw1.lab''),
      (''interface_list'', JList [JStr ''1/1/1'', JStr ''vlan1''])])"
  by (simp add: get_facts_def candidate_keys_def ex_switch_def py_getitem_def py_len_def
      py_int_minus_def py_in_def py_add_str_def)

lemma ex_bare_switch_lookups:
  "get_fan_info (Inr ex_bare_switch) = Inl (UnboundLocalError ''fan_info_dict'')"
  "get_power_supplies (Inr ex_bare_switch) = Inl (UnboundLocalError ''power_supply_dict'')"
  "get_resource_utilization (Inr ex_bare_switch) = Inl (UnboundLocalError ''resources_dict'')"
  "get_facts 5000 (Inr ex_bare_switch) (Inr [(''1/1/1'', ())]) = Inl (KeyError ''serial_number'')"
  by (simp_all add: get_fan_info_def get_power_supplies_def get_resource_utilization_def
      get_facts_def candidate_keys_def ex_bare_switch_def py_getitem_def py_len_def
      py_int_minus_def py_in_def py_add_str_def)

text \<open>
  The theorem at the example switch: fans, power supplies and product information come from
  the chassis, the resource utilization from the management module; on the bare switch
  the lookups raise.
\<close>

theorem subsystem_fallback_witness:
  "get_fan_info (Inr ex_switch) = Inr (JDict [(''1/1/1'', JDict [(''status'', JStr ''ok'')])]) \<and>
   get_power_supplies (Inr ex_switch) = Inr (JDict [(''1/1'', JDict [(''status'', JStr ''ok'')])]) \<and>
   get_resource_utilization (Inr ex_switch) = Inr (JDict [(''cpu'', JInt 7), (''memory'', JInt 31)]) \<and>
   get_facts 5000 (Inr ex_switch) (Inr [(''1/1/1'', ()), (''vlan1'', ())]) = Inr (JDict
     [(''uptime'', JInt 4000), (''vendor'', JStr ''Aruba''), (''os_version'', JStr ''FL.10.09''),
      (''serial_number'', JStr ''SG01''), (''model'', JStr ''6300M''),
      (''hostname'', JStr ''sw1''), (''fqdn'', JStr ''sw1.lab''),
      (''interface_list'', JList [JStr ''1/1/1'', JStr ''vlan1''])]) \<and>
   get_fan_info (Inr ex_bare_switch) = Inl (UnboundLocalError ''fan_info_dict'') \<and>
   get_facts 5000 (Inr ex_bare_switch) (Inr [(''1/1/1'', ())]) = Inl (KeyError ''serial_number'')"
proof -
  from subsystem_fallback [OF ex_switch_mm ex_switch_ch,
      where now = 5000 and interface_fetch = "Inr [(''1/1/1'', ()), (''vlan1'', ())]"]
  show ?thesis
    apply -
    apply (intro conjI)
         apply (rule ex_switch_lookups(1))
        apply (rule ex_switch_lookups(2))
       apply (rule ex_switch_lookups(3))
      apply (rule ex_switch_facts)
     apply (rule ex_bare_switch_lookups(1))
    apply (rule ex_bare_switch_lookups(4))
    done
qed

section \<open>Interface facts\<close>

lemma default_na_dict:
  "ebind (py_in k (JDict m)) (\<lambda>present.
     ebind (if \<not> present then Inr (JStr ''N/A'') else py_getitem (JDict m) k) f) =
   f (field_or_na m k)"
  by (cases "map_of m k") (simp_all add: py_in_def py_getitem_def field_or_na_def in_keys_iff)

lemma interface_entry_run:
  assumes hw: "map_of d ''hw_intf_info'' = Some (JDict h)"
    and l: "map_of d ''link_state'' = Some link_state"
    and a: "map_of d ''admin_state'' = Some admin_state"
  shows "interface_entry (JDict d) = Inr (JDict
         [(''is_up'', JBool (link_state = JStr ''up'')),
          (''is_enabled'', JBool (admin_state = JStr ''up'')),
          (''description'', description_or_empty d),
          (''last_flapped'', JFloat (- 1)),
          (''speed'', field_or_na h ''max_speed''),
          (''mtu'', field_or_na d ''mtu''),
          (''mac_address'', field_or_na h ''mac_addr'')])"
proof (cases "map_of d ''description'' = None \<or> map_of d ''description'' = Some JNull")
  case True
  let ?d = "AList.update ''description'' (JStr []) d"
  have reset: "ebind (py_in ''description'' (JDict d)) (\<lambda>has_description.
     ebind (if \<not> has_description then Inr True
            else ebind (py_getitem (JDict d) ''description'') (\<lambda>d. Inr (d = JNull))) f) = f True" for f :: "bool \<Rightarrow> error + jv"
    using True by (auto simp: py_in_def py_getitem_def in_keys_iff)
  have g: "map_of ?d ''hw_intf_info'' = Some (JDict h)" "map_of ?d ''link_state'' = Some link_state"
    "map_of ?d ''admin_state'' = Some admin_state" "map_of ?d ''description'' = Some (JStr [])"
    using hw l a by (simp_all add: update_conv')
  have mtu: "field_or_na ?d ''mtu'' = field_or_na d ''mtu''"
    by (simp add: field_or_na_def update_conv')
  have de: "description_or_empty d = JStr []"
    using True by (auto simp: description_or_empty_def)
  show ?thesis
    unfolding interface_entry_def reset
    apply (simp add: py_setitem_def)
    apply (simp add: py_getitem_def [of "JDict ?d"] g default_na_dict mtu de py_eq_str_def)
    done
next
  case False
  then obtain v where v: "map_of d ''description'' = Some v" "v \<noteq> JNull" by auto
  have reset: "ebind (py_in ''description'' (JDict d)) (\<lambda>has_description.
     ebind (if \<not> has_description then Inr True
            else ebind (py_getitem (JDict d) ''description'') (\<lambda>d. Inr (d = JNull))) f) = f False" for f :: "bool \<Rightarrow> error + jv"
    using v by (auto simp: py_in_def py_getitem_def in_keys_iff)
  have de: "description_or_empty d = v"
    using v by (simp add: description_or_empty_def)
  show ?thesis
    unfolding interface_entry_def reset
    apply (simp add: py_getitem_def [of "JDict d"] hw l a v default_na_dict de py_eq_str_def)
    done
qed

lemma ex_interfaces_run: "get_interfaces (Inr ex_interfaces) = Inr ex_interfaces_out"
  by (simp add: get_interfaces_def ex_interfaces_def ex_interfaces_out_def interface_entry_def
      py_eq_str_def py_in_def py_getitem_def py_setitem_def)

lemma ex_interfaces_distinct: "distinct (map fst ex_interfaces)"
  by (simp add: ex_interfaces_def)

lemma ex_interfaces_wf:
  "\<forall>(interface, interface_details) \<in> set ex_interfaces.
     \<exists>h link_state admin_state.
       py_getitem interface_details ''hw_intf_info'' = Inr (JDict h) \<and>
       py_getitem interface_details ''link_state'' = Inr link_state \<and>
       py_getitem interface_details ''admin_state'' = Inr admin_state"
  by (simp add: ex_interfaces_def py_getitem_def)

lemma get_interfaces_total:
  assumes "distinct (map fst interface_list)"
    and "\<forall>(interface, interface_details) \<in> set interface_list.
           \<exists>h link_state admin_state.
             py_getitem interface_details ''hw_intf_info'' = Inr (JDict h) \<and>
             py_getitem interface_details ''link_state'' = Inr link_state \<and>
             py_getitem interface_details ''admin_state'' = Inr admin_state"
  obtains out where "get_interfaces (Inr interface_list) = Inr out"
    and "map fst out = map fst interface_list"
    and "\<And>interface d h link_state admin_state.
         (interface, JDict d) \<in> set interface_list \<Longrightarrow>
         map_of d ''hw_intf_info'' = Some (JDict h) \<Longrightarrow>
         map_of d ''link_state'' = Some link_state \<Longrightarrow>
         map_of d ''admin_state'' = Some admin_state \<Longrightarrow>
         map_of out interface = Some (JDict
           [(''is_up'', JBool (link_state = JStr ''up'')),
            (''is_enabled'', JBool (admin_state = JStr ''up'')),
            (''description'', description_or_empty d),
            (''last_flapped'', JFloat (- 1)),
            (''speed'', field_or_na h ''max_speed''),
            (''mtu'', field_or_na d ''mtu''),
            (''mac_address'', field_or_na h ''mac_addr'')])"
proof -
  let ?body = "\<lambda>(k, v) acc. ebind (interface_entry v) (\<lambda>e. Inr (AList.update k e acc))"
  have "\<forall>(k, v) \<in> set interface_list. \<exists>e. interface_entry v = Inr e"
  proof (clarify)
    fix k v assume "(k, v) \<in> set interface_list"
    with assms(2) obtain h l a where
      "py_getitem v ''hw_intf_info'' = Inr (JDict h)" "py_getitem v ''link_state'' = Inr l"
      "py_getitem v ''admin_state'' = Inr a" by blast
    then obtain d where "v = JDict d" "map_of d ''hw_intf_info'' = Some (JDict h)"
      "map_of d ''link_state'' = Some l" "map_of d ''admin_state'' = Some a"
      by (auto dest!: py_getitem_InrD)
    then show "\<exists>e. interface_entry v = Inr e" by (simp add: interface_entry_run)
  qed
  from efold_update_total [OF this, of "[]"]
  obtain out where loop: "efold ?body interface_list [] = Inr out" by blast
  then have run: "get_interfaces (Inr interface_list) = Inr out"
    by (simp add: get_interfaces_def)
  from efold_update_keys [OF loop] assms(1)
  have keys: "map fst out = map fst interface_list" by simp
  have entry: "map_of out interface = Some (JDict
           [(''is_up'', JBool (link_state = JStr ''up'')),
            (''is_enabled'', JBool (admin_state = JStr ''up'')),
            (''description'', description_or_empty d),
            (''last_flapped'', JFloat (- 1)),
            (''speed'', field_or_na h ''max_speed''),
            (''mtu'', field_or_na d ''mtu''),
            (''mac_address'', field_or_na h ''mac_addr'')])"
    if "(interface, JDict d) \<in> set interface_list"
      "map_of d ''hw_intf_info'' = Some (JDict h)"
      "map_of d ''link_state'' = Some link_state" "map_of d ''admin_state'' = Some admin_state"
    for interface d h link_state admin_state
    using efold_update_lookup [OF loop assms(1) that(1)] interface_entry_run [OF that(2,3,4)]
    by simp
  show ?thesis by (rule that [OF run keys entry])
qed

text \<open>
  Claim C2, as the code has it. On an interface dict with distinct names in which every
  interface carries a \<open>hw_intf_info\<close> dict, a \<open>link_state\<close> and an \<open>admin_state\<close>
  (the source indexes all three unguarded), the interface-facts operation returns one entry
  per interface, in the interfaces' order. Each entry has exactly seven keys: the six
  documented ones and \<open>last_flapped\<close>. \<open>is_up\<close> is the boolean
  \<open>link_state == "up"\<close> and \<open>is_enabled\<close> the boolean \<open>admin_state == "up"\<close>.
\<close>

theorem get_interfaces_entry_keys:
  assumes "distinct (map fst interface_list)"
    and "\<forall>(interface, interface_details) \<in> set interface_list.
           \<exists>h link_state admin_state.
             py_getitem interface_details ''hw_intf_info'' = Inr (JDict h) \<and>
             py_getitem interface_details ''link_state'' = Inr link_state \<and>
             py_getitem interface_details ''admin_state'' = Inr admin_state"
  shows "\<exists>out. get_interfaces (Inr interface_list) = Inr out \<and>
    map fst out = map fst interface_list \<and>
    (\<forall>(interface, interface_details) \<in> set interface_list.
       \<forall>link_state admin_state.
         py_getitem interface_details ''link_state'' = Inr link_state \<longrightarrow>
         py_getitem interface_details ''admin_state'' = Inr admin_state \<longrightarrow>
         (\<exists>entry. map_of out interface = Some (JDict entry) \<and>
            map fst entry = [''is_up'', ''is_enabled'', ''description'', ''last_flapped'',
                             ''speed'', ''mtu'', ''mac_address''] \<and>
            map_of entry ''is_up'' = Some (JBool (link_state = JStr ''up'')) \<and>
            map_of entry ''is_enabled'' = Some (JBool (admin_state = JStr ''up''))))"
proof (rule get_interfaces_total [OF assms])
  fix out
  assume run: "get_interfaces (Inr interface_list) = Inr out"
    and keys: "map fst out = map fst interface_list"
    and entry: "\<And>interface d h link_state admin_state.
         (interface, JDict d) \<in> set interface_list \<Longrightarrow>
         map_of d ''hw_intf_info'' = Some (JDict h) \<Longrightarrow>
         map_of d ''link_state'' = Some link_state \<Longrightarrow>
         map_of d ''admin_state'' = Some admin_state \<Longrightarrow>
         map_of out interface = Some (JDict
           [(''is_up'', JBool (link_state = JStr ''up'')),
            (''is_enabled'', JBool (admin_state = JStr ''up'')),
            (''description'', description_or_empty d),
            (''last_flapped'', JFloat (- 1)),
            (''speed'', field_or_na h ''max_speed''),
            (''mtu'', field_or_na d ''mtu''),
            (''mac_address'', field_or_na h ''mac_addr'')])"
  have per: "\<exists>entry. map_of out interface = Some (JDict entry) \<and>
            map fst entry = [''is_up'', ''is_enabled'', ''description'', ''last_flapped'',
                             ''speed'', ''mtu'', ''mac_address''] \<and>
            map_of entry ''is_up'' = Some (JBool (link_state = JStr ''up'')) \<and>
            map_of entry ''is_enabled'' = Some (JBool (admin_state = JStr ''up''))"
    if mem: "(interface, interface_details) \<in> set interface_list"
      and ls: "py_getitem interface_details ''link_state'' = Inr link_state"
      and as: "py_getitem interface_details ''admin_state'' = Inr admin_state"
    for interface interface_details link_state admin_state
  proof -
    from assms(2) mem obtain h where "py_getitem interface_details ''hw_intf_info'' = Inr (JDict h)"
      by blast
    with ls as obtain d where d: "interface_details = JDict d"
      "map_of d ''hw_intf_info'' = Some (JDict h)"
      "map_of d ''link_state'' = Some link_state" "map_of d ''admin_state'' = Some admin_state"
      by (auto dest!: py_getitem_InrD)
    from entry [OF mem [unfolded d(1)] d(2,3,4)] show ?thesis by simp
  qed
  show ?thesis
    apply (rule exI [of _ out])
    apply (intro conjI)
      apply (rule run)
     apply (rule keys)
    apply clarify
    apply (rule per; assumption)
    done
qed

text \<open>
  The theorem at the two example interfaces; \<open>"UP"\<close> is not \<open>"up"\<close>, so the VLAN
  interface is not up.
\<close>

theorem get_interfaces_entry_keys_witness:
  "distinct (map fst ex_interfaces) \<and>
   get_interfaces (Inr ex_interfaces) = Inr ex_interfaces_out \<and>
   map_of ex_interfaces_out ''vlan1'' =
     Some (JDict [(''is_up'', JBool False), (''is_enabled'', JBool True),
                  (''description'', JStr ''mgmt''), (''last_flapped'', JFloat (- 1)),
                  (''speed'', JInt 1000), (''mtu'', JInt 1500),
                  (''mac_address'', JStr ''aa:bb'')])"
proof -
  have m: "map_of ex_interfaces_out ''vlan1'' =
     Some (JDict [(''is_up'', JBool False), (''is_enabled'', JBool True),
                  (''description'', JStr ''mgmt''), (''last_flapped'', JFloat (- 1)),
                  (''speed'', JInt 1000), (''mtu'', JInt 1500),
                  (''mac_address'', JStr ''aa:bb'')])"
    by (simp add: ex_interfaces_out_def)
  from get_interfaces_entry_keys [OF ex_interfaces_distinct ex_interfaces_wf]
  show ?thesis
    apply -
    apply (intro conjI)
      apply (rule ex_interfaces_distinct)
     apply (rule ex_interfaces_run)
    apply (rule m)
    done
qed

text \<open>
  Claim C2 as stated fails: the entry of the example port has the key \<open>last_flapped\<close>,
  which is not one of the six documented keys.
\<close>

theorem get_interfaces_six_keys_counterexample:
  "get_interfaces (Inr ex_interfaces) = Inr ex_interfaces_out \<and>
   map_of ex_interfaces_out ''1/1/1'' =
     Some (JDict [(''is_up'', JBool True), (''is_enabled'', JBool False),
                  (''description'', JStr []), (''last_flapped'', JFloat (- 1)),
                  (''speed'', JStr ''N/A''), (''mtu'', JStr ''N/A''),
                  (''mac_address'', JStr ''N/A'')]) \<and>
   ''last_flapped'' \<in> set (map fst
                 [(''is_up'', JBool True), (''is_enabled'', JBool False),
                  (''description'', JStr []), (''last_flapped'', JFloat (- 1)),
                  (''speed'', JStr ''N/A''), (''mtu'', JStr ''N/A''),
                  (''mac_address'', JStr ''N/A'')]) \<and>
   ''last_flapped'' \<notin>
     {''is_up'', ''is_enabled'', ''description'', ''speed'', ''mtu'', ''mac_address''}"
proof -
  have m: "map_of ex_interfaces_out ''1/1/1'' =
     Some (JDict [(''is_up'', JBool True), (''is_enabled'', JBool False),
                  (''description'', JStr []), (''last_flapped'', JFloat (- 1)),
                  (''speed'', JStr ''N/A''), (''mtu'', JStr ''N/A''),
                  (''mac_address'', JStr ''N/A'')])"
    by (simp add: ex_interfaces_out_def)
  show ?thesis using ex_interfaces_run m by simp
qed

text \<open>
  Claim C3, on the same inputs as C2 (the operation returns on all of them). In the entry
  of every interface: the description is the empty string when the source
  \<open>description\<close> is absent or null; \<open>speed\<close>, \<open>mtu\<close> and \<open>mac_address\<close> are the literal
  \<open>"N/A"\<close> when \<open>hw_intf_info['max_speed']\<close>, \<open>mtu\<close> and \<open>hw_intf_info['mac_addr']\<close>
  are missing; a field that is present passes through; and \<open>last_flapped\<close> is
  \<open>-1.0\<close> whatever the input.
\<close>

theorem get_interfaces_defaults:
  assumes "distinct (map fst interface_list)"
    and "\<forall>(interface, interface_details) \<in> set interface_list.
           \<exists>h link_state admin_state.
             py_getitem interface_details ''hw_intf_info'' = Inr (JDict h) \<and>
             py_getitem interface_details ''link_state'' = Inr link_state \<and>
             py_getitem interface_details ''admin_state'' = Inr admin_state"
  shows "\<exists>out. get_interfaces (Inr interface_list) = Inr out \<and>
    (\<forall>(interface, interface_details) \<in> set interface_list.
       \<forall>d h. interface_details = JDict d \<longrightarrow> map_of d ''hw_intf_info'' = Some (JDict h) \<longrightarrow>
         (\<exists>entry. map_of out interface = Some (JDict entry) \<and>
            (map_of d ''description'' = None \<or> map_of d ''description'' = Some JNull \<longrightarrow>
               map_of entry ''description'' = Some (JStr [])) \<and>
            (map_of h ''max_speed'' = None \<longrightarrow> map_of entry ''speed'' = Some (JStr ''N/A'')) \<and>
            (map_of d ''mtu'' = None \<longrightarrow> map_of entry ''mtu'' = Some (JStr ''N/A'')) \<and>
            (map_of h ''mac_addr'' = None \<longrightarrow> map_of entry ''mac_address'' = Some (JStr ''N/A'')) \<and>
            (\<forall>v. map_of d ''description'' = Some v \<longrightarrow> v \<noteq> JNull \<longrightarrow>
               map_of entry ''description'' = Some v) \<and>
            (\<forall>v. map_of h ''max_speed'' = Some v \<longrightarrow> map_of entry ''speed'' = Some v) \<and>
            (\<forall>v. map_of d ''mtu'' = Some v \<longrightarrow> map_of entry ''mtu'' = Some v) \<and>
            (\<forall>v. map_of h ''mac_addr'' = Some v \<longrightarrow> map_of entry ''mac_address'' = Some v) \<and>
            map_of entry ''last_flapped'' = Some (JFloat (- 1))))"
proof (rule get_interfaces_total [OF assms])
  fix out
  assume run: "get_interfaces (Inr interface_list) = Inr out"
    and entry: "\<And>interface d h link_state admin_state.
         (interface, JDict d) \<in> set interface_list \<Longrightarrow>
         map_of d ''hw_intf_info'' = Some (JDict h) \<Longrightarrow>
         map_of d ''link_state'' = Some link_state \<Longrightarrow>
         map_of d ''admin_state'' = Some admin_state \<Longrightarrow>
         map_of out interface = Some (JDict
           [(''is_up'', JBool (link_state = JStr ''up'')),
            (''is_enabled'', JBool (admin_state = JStr ''up'')),
            (''description'', description_or_empty d),
            (''last_flapped'', JFloat (- 1)),
            (''speed'', field_or_na h ''max_speed''),
            (''mtu'', field_or_na d ''mtu''),
            (''mac_address'', field_or_na h ''mac_addr'')])"
  have per: "\<exists>entry. map_of out interface = Some (JDict entry) \<and>
            (map_of d ''description'' = None \<or> map_of d ''description'' = Some JNull \<longrightarrow>
               map_of entry ''description'' = Some (JStr [])) \<and>
            (map_of h ''max_speed'' = None \<longrightarrow> map_of entry ''speed'' = Some (JStr ''N/A'')) \<and>
            (map_of d ''mtu'' = None \<longrightarrow> map_of entry ''mtu'' = Some (JStr ''N/A'')) \<and>
            (map_of h ''mac_addr'' = None \<longrightarrow> map_of entry ''mac_address'' = Some (JStr ''N/A'')) \<and>
            (\<forall>v. map_of d ''description'' = Some v \<longrightarrow> v \<noteq> JNull \<longrightarrow>
               map_of entry ''description'' = Some v) \<and>
            (\<forall>v. map_of h ''max_speed'' = Some v \<longrightarrow> map_of entry ''speed'' = Some v) \<and>
            (\<forall>v. map_of d ''mtu'' = Some v \<longrightarrow> map_of entry ''mtu'' = Some v) \<and>
            (\<forall>v. map_of h ''mac_addr'' = Some v \<longrightarrow> map_of entry ''mac_address'' = Some v) \<and>
            map_of entry ''last_flapped'' = Some (JFloat (- 1))"
    if mem: "(interface, JDict d) \<in> set interface_list"
      and hw: "map_of d ''hw_intf_info'' = Some (JDict h)"
    for interface d h
  proof -
    from assms(2) mem obtain l a where
      "py_getitem (JDict d) ''link_state'' = Inr l" "py_getitem (JDict d) ''admin_state'' = Inr a"
      by blast
    then have la: "map_of d ''link_state'' = Some l" "map_of d ''admin_state'' = Some a"
      by (auto dest!: py_getitem_InrD)
    from entry [OF mem hw la] show ?thesis
      by (simp add: field_or_na_def description_or_empty_def)
  qed
  show ?thesis
    apply (rule exI [of _ out])
    apply (intro conjI)
     apply (rule run)
    apply clarify
    apply (rule per; assumption)
    done
qed

text \<open>The theorem at the example port, where all four defaults apply.\<close>

theorem get_interfaces_defaults_witness:
  "distinct (map fst ex_interfaces) \<and>
   get_interfaces (Inr ex_interfaces) = Inr ex_interfaces_out \<and>
   map_of ex_interfaces_out ''1/1/1'' =
     Some (JDict [(''is_up'', JBool True), (''is_enabled'', JBool False),
                  (''description'', JStr []), (''last_flapped'', JFloat (- 1)),
                  (''speed'', JStr ''N/A''), (''mtu'', JStr ''N/A''),
                  (''mac_address'', JStr ''N/A'')])"
proof -
  have m: "map_of ex_interfaces_out ''1/1/1'' =
     Some (JDict [(''is_up'', JBool True), (''is_enabled'', JBool False),
                  (''description'', JStr []), (''last_flapped'', JFloat (- 1)),
                  (''speed'', JStr ''N/A''), (''mtu'', JStr ''N/A''),
                  (''mac_address'', JStr ''N/A'')])"
    by (simp add: ex_interfaces_out_def)
  from get_interfaces_defaults [OF ex_interfaces_distinct ex_interfaces_wf]
  show ?thesis
    apply -
    apply (intro conjI)
      apply (rule ex_interfaces_distinct)
     apply (rule ex_interfaces_run)
    apply (rule m)
    done
qed

section \<open>VLAN membership\<close>

lemma char_code_digit_facts:
  "is_digit c \<Longrightarrow> \<not> beyond_int_grammar c \<and> c \<noteq> CHR ''-'' \<and> c \<noteq> CHR ''+''"
  by (auto simp: is_digit_def beyond_int_grammar_def char_code_def)

lemma py_int_of_str_digits:
  assumes "vlan_id_string k"
  shows "py_int_of_str k = Inr (digits_value k)"
proof -
  from assms obtain c r where k: "k = c # r" and d: "list_all is_digit (c # r)"
    by (cases k) (auto simp: vlan_id_string_def)
  from d have nb: "\<not> list_ex beyond_int_grammar (c # r)"
    by (auto simp: list_ex_iff list_all_iff dest: char_code_digit_facts)
  from d have "is_digit c" by simp
  then have c: "c \<noteq> CHR ''-''" "c \<noteq> CHR ''+''" by (auto dest: char_code_digit_facts)
  show ?thesis unfolding k py_int_of_str_def using nb c d by simp
qed

lemma vlan_ids_of_dict:
  assumes "list_all (\<lambda>kv. vlan_id_string (fst kv)) t"
  shows "vlan_ids_of (JDict t) = Inr (map (\<lambda>kv. digits_value (fst kv)) t)"
proof -
  have "list_all2 (\<lambda>x y. py_int x = Inr y) (map (\<lambda>kv. JStr (fst kv)) t)
          (map (\<lambda>kv. digits_value (fst kv)) t)"
    using assms by (induction t) (auto simp: py_int_def py_int_of_str_digits)
  from efold_append [OF this, of "[]"] show ?thesis
    by (simp add: vlan_ids_of_def py_iter_def)
qed

lemma present_nonempty_ok:
  assumes "vlan_source_ok known (map_of f k)"
  shows "present_nonempty k (JDict f) = Inr (nonempty_dict (map_of f k) \<noteq> None)"
proof (cases "map_of f k")
  case None
  then have "k \<notin> fst ` set f" by (simp add: map_of_eq_None_iff)
  with None show ?thesis by (simp add: present_nonempty_def py_in_def nonempty_dict_def)
next
  case (Some v)
  then have in_f: "k \<in> fst ` set f" by (simp add: in_keys_iff)
  from assms Some consider "v = JNull" | t where "v = JDict t"
    by (cases v) (auto simp: vlan_source_ok_def)
  then show ?thesis
    using Some in_f
    by cases (auto simp: present_nonempty_def py_in_def py_getitem_def py_truthy_def
                py_len_def nonempty_dict_def)
qed

lemma with_interfaces_nil [simp]: "map_option (with_interfaces interface [] n) x = x"
  by (cases x) (simp_all add: with_interfaces_def)

lemma append_interfaces_run:
  assumes "set ids \<subseteq> fst ` set vlan_json"
  shows "\<exists>out. efold (append_interface interface) ids vlan_json = Inr out \<and>
     map fst out = map fst vlan_json \<and>
     (\<forall>n. map_of out n = map_option (with_interfaces interface ids n) (map_of vlan_json n))"
  using assms
proof (induction ids arbitrary: vlan_json)
  case Nil
  show ?case by simp
next
  case (Cons vid ids)
  then have "vid \<in> fst ` set vlan_json" by simp
  then obtain e where e: "map_of vlan_json vid = Some e"
    by (auto simp: in_keys_iff)
  let ?vj = "AList.update vid (VlanEntry (vlan_name e) (vlan_interfaces e @ [interface])) vlan_json"
  have step: "append_interface interface vid vlan_json = Inr ?vj"
    by (simp add: append_interface_def e)
  from \<open>vid \<in> fst ` set vlan_json\<close> have keys: "map fst ?vj = map fst vlan_json"
    by (simp add: update_keys)
  with Cons.prems have "set ids \<subseteq> fst ` set ?vj"
    by (metis list.set_map set_subset_Cons subset_trans)
  from Cons.IH [OF this] obtain out where
    out: "efold (append_interface interface) ids ?vj = Inr out"
    "map fst out = map fst ?vj"
    "\<And>n. map_of out n = map_option (with_interfaces interface ids n) (map_of ?vj n)"
    by blast
  have "map_of out n = map_option (with_interfaces interface (vid # ids) n) (map_of vlan_json n)"
    for n
    unfolding out(3)
    by (cases "map_of vlan_json n")
       (auto simp: update_conv' e with_interfaces_def)
  with out(1,2) keys step show ?case by simp
qed

lemma membership_key_ok:
  assumes "scannable known (JDict f)"
  shows "membership_key (JDict f) =
     Inr (if nonempty_dict (map_of f ''applied_vlan_trunks'') \<noteq> None then ''applied_vlan_trunks''
          else if nonempty_dict (map_of f ''applied_vlan_tag'') \<noteq> None then ''applied_vlan_tag''
          else [])"
proof -
  from assms have ok: "vlan_source_ok known (map_of f ''applied_vlan_trunks'')"
    "vlan_source_ok known (map_of f ''applied_vlan_tag'')"
    by (simp_all add: scannable_def)
  show ?thesis
    by (simp add: membership_key_def present_nonempty_ok [OF ok(1)] present_nonempty_ok [OF ok(2)])
qed

lemma nonempty_dict_SomeD:
  "nonempty_dict v = Some t \<Longrightarrow> v = Some (JDict t) \<and> t \<noteq> []"
  by (auto simp: nonempty_dict_def split: option.splits jv.splits if_splits)

lemma scan_interface_run:
  assumes sc: "scannable (map fst vlan_json) facts"
  shows "\<exists>out. scan_interface (interface, facts) vlan_json = Inr out \<and>
     map fst out = map fst vlan_json \<and>
     (\<forall>n. map_of out n =
            map_option (with_interfaces interface (source_ids facts) n) (map_of vlan_json n))"
proof -
  from sc obtain f where facts: "facts = JDict f" by (cases facts) (auto simp: scannable_def)
  from sc have ok: "vlan_source_ok (map fst vlan_json) (map_of f ''applied_vlan_trunks'')"
    "vlan_source_ok (map fst vlan_json) (map_of f ''applied_vlan_tag'')"
    by (simp_all add: scannable_def facts)
  have src: "\<exists>out. ebind (py_getitem (JDict f) k) (\<lambda>source.
            ebind (vlan_ids_of source) (\<lambda>vlan_ids.
              efold (append_interface interface) vlan_ids vlan_json)) = Inr out \<and>
     map fst out = map fst vlan_json \<and>
     (\<forall>n. map_of out n = map_option
        (with_interfaces interface (map (\<lambda>kv. digits_value (fst kv)) t) n) (map_of vlan_json n))"
    if t: "nonempty_dict (map_of f k) = Some t" and okk: "vlan_source_ok (map fst vlan_json) (map_of f k)"
    for k t
  proof -
    from nonempty_dict_SomeD [OF t] have m: "map_of f k = Some (JDict t)" by simp
    from okk m have all: "list_all (\<lambda>kv. vlan_id_string (fst kv) \<and>
        digits_value (fst kv) \<in> set (map fst vlan_json)) t"
      by (simp add: vlan_source_ok_def)
    then have ids: "list_all (\<lambda>kv. vlan_id_string (fst kv)) t"
      by (simp add: list_all_iff)
    from all have sub: "set (map (\<lambda>kv. digits_value (fst kv)) t) \<subseteq> fst ` set vlan_json"
      by (auto simp: list_all_iff)
    from append_interfaces_run [OF sub, of interface] show ?thesis
      by (simp add: py_getitem_def m vlan_ids_of_dict [OF ids])
  qed
  show ?thesis
  proof (cases "nonempty_dict (map_of f ''applied_vlan_trunks'')")
    case (Some t)
    from src [OF Some ok(1)] Some show ?thesis
      by (simp add: scan_interface_def facts membership_key_ok [OF sc [unfolded facts]]
          source_ids_def member_source_def)
  next
    case None
    show ?thesis
    proof (cases "nonempty_dict (map_of f ''applied_vlan_tag'')")
      case (Some t)
      from src [OF Some ok(2)] Some None show ?thesis
        by (simp add: scan_interface_def facts membership_key_ok [OF sc [unfolded facts]]
            source_ids_def member_source_def)
    next
      case None2: None
      from None None2 show ?thesis
        by (simp add: scan_interface_def facts membership_key_ok [OF sc [unfolded facts]]
            source_ids_def member_source_def)
    qed
  qed
qed

lemma scan_loop_run:
  assumes "\<forall>kv \<in> set phys. scannable (map fst vlan_json) (snd kv)"
  shows "\<exists>out. efold scan_interface phys vlan_json = Inr out \<and>
     map fst out = map fst vlan_json \<and>
     (\<forall>n. map_of out n =
        map_option (\<lambda>e. VlanEntry (vlan_name e) (vlan_interfaces e @
            concat (map (\<lambda>kv. replicate (count_list (source_ids (snd kv)) n) (fst kv)) phys)))
          (map_of vlan_json n))"
  using assms
proof (induction phys arbitrary: vlan_json)
  case Nil
  show ?case by (simp add: option.map_ident)
next
  case (Cons kv phys)
  obtain interface facts where kv: "kv = (interface, facts)" by (cases kv)
  from Cons.prems have "scannable (map fst vlan_json) facts" by (simp add: kv)
  from scan_interface_run [OF this, of interface] obtain mid where
    mid: "scan_interface (interface, facts) vlan_json = Inr mid"
    "map fst mid = map fst vlan_json"
    "\<And>n. map_of mid n =
            map_option (with_interfaces interface (source_ids facts) n) (map_of vlan_json n)"
    by blast
  from Cons.prems mid(2) have "\<forall>kv \<in> set phys. scannable (map fst mid) (snd kv)" by simp
  from Cons.IH [OF this] obtain out where
    out: "efold scan_interface phys mid = Inr out" "map fst out = map fst mid"
    "\<And>n. map_of out n =
        map_option (\<lambda>e. VlanEntry (vlan_name e) (vlan_interfaces e @
            concat (map (\<lambda>kv. replicate (count_list (source_ids (snd kv)) n) (fst kv)) phys)))
          (map_of mid n)"
    by blast
  have "map_of out n =
        map_option (\<lambda>e. VlanEntry (vlan_name e) (vlan_interfaces e @
            concat (map (\<lambda>kv. replicate (count_list (source_ids (snd kv)) n) (fst kv)) (kv # phys))))
          (map_of vlan_json n)" for n
    unfolding out(3) mid(3)
    by (cases "map_of vlan_json n") (simp_all add: with_interfaces_def kv)
  with out(1,2) mid(1,2) show ?case by (simp add: kv)
qed

lemma add_vlan_as_update:
  assumes "\<forall>kv \<in> set vlan_list. vlan_id_string (fst kv)"
  shows "efold add_vlan vlan_list acc =
     efold (\<lambda>(k, v) acc. ebind (ebind (py_getitem v ''name'') (\<lambda>name. Inr (VlanEntry name [])))
                            (\<lambda>e. Inr (AList.update k e acc)))
           (map (\<lambda>kv. (digits_value (fst kv), snd kv)) vlan_list) acc"
  using assms
proof (induction vlan_list arbitrary: acc)
  case Nil
  show ?case by simp
next
  case (Cons kv vlan_list)
  then have k: "py_int_of_str (fst kv) = Inr (digits_value (fst kv))"
    by (simp add: py_int_of_str_digits)
  have step: "add_vlan kv acc =
      ebind (ebind (py_getitem (snd kv) ''name'') (\<lambda>name. Inr (VlanEntry name [])))
        (\<lambda>e. Inr (AList.update (digits_value (fst kv)) e acc))"
    by (cases "py_getitem (snd kv) ''name''") (simp_all add: add_vlan_def k)
  from Cons show ?case by (simp add: step split: sum.splits)
qed

lemma add_vlans_run:
  assumes ids: "\<forall>kv \<in> set vlan_list. vlan_id_string (fst kv) \<and>
                  (\<exists>name. py_getitem (snd kv) ''name'' = Inr name)"
    and dist: "distinct (map (\<lambda>kv. digits_value (fst kv)) vlan_list)"
  obtains vlan_json where "efold add_vlan vlan_list [] = Inr vlan_json"
    and "map fst vlan_json = map (\<lambda>kv. digits_value (fst kv)) vlan_list"
    and "\<And>k v name. (k, v) \<in> set vlan_list \<Longrightarrow> py_getitem v ''name'' = Inr name \<Longrightarrow>
           map_of vlan_json (digits_value k) = Some (VlanEntry name [])"
proof -
  let ?f = "\<lambda>v. ebind (py_getitem v ''name'') (\<lambda>name. Inr (VlanEntry name []))"
  let ?items = "map (\<lambda>kv. (digits_value (fst kv), snd kv)) vlan_list"
  let ?body = "\<lambda>(k, v) acc. ebind (?f v) (\<lambda>e. Inr (AList.update k e acc))"
  from ids have eq: "efold add_vlan vlan_list [] = efold ?body ?items []"
    by (intro add_vlan_as_update) simp
  have keys: "map fst ?items = map (\<lambda>kv. digits_value (fst kv)) vlan_list"
    by (simp add: comp_def)
  from ids have "\<forall>(k, v) \<in> set ?items. \<exists>e. ?f v = Inr e" by auto
  from efold_update_total [OF this, of "[]"] obtain vj where
    loop: "efold ?body ?items [] = Inr vj" by blast
  from dist have dist': "distinct (map fst [] @ map fst ?items)" by (simp add: comp_def)
  from efold_update_keys [OF loop dist']
  have k: "map fst vj = map (\<lambda>kv. digits_value (fst kv)) vlan_list" by (simp add: comp_def)
  have l: "map_of vj (digits_value k) = Some (VlanEntry name [])"
    if "(k, v) \<in> set vlan_list" "py_getitem v ''name'' = Inr name" for k v name
  proof -
    from that(1) have "(digits_value k, v) \<in> set ?items" by force
    from dist have "distinct (map fst ?items)" by (simp add: comp_def)
    from efold_update_lookup [OF loop this \<open>(digits_value k, v) \<in> set ?items\<close>] that(2)
    show ?thesis by simp
  qed
  from eq loop have "efold add_vlan vlan_list [] = Inr vj" by simp
  from this k l show ?thesis by (rule that)
qed

text \<open>
  Claim C7. The inputs: a VLAN list whose ids are digit strings with distinct values and
  whose VLANs carry a \<open>name\<close>; an interface dict in which the trunk and tag fields of every
  physical interface (a \<open>/\<close> in its name) are absent, null or a dict keyed by ids of
  listed VLANs. Nothing is asked of the other interfaces. On these inputs the VLAN operation
  returns a mapping with one entry per VLAN, keyed by the integer id, in the order of the
  VLAN list. The entry of VLAN \<open>n\<close> holds its name and the list \<open>vlan_members n\<close>: the
  physical interfaces, in iteration order, whose membership source (trunks if present and
  non-empty, else tag if present and non-empty, else none) contains \<open>n\<close>.
\<close>

theorem get_vlans_membership:
  assumes ids: "\<forall>kv \<in> set vlan_list. vlan_id_string (fst kv) \<and>
                  (\<exists>name. py_getitem (snd kv) ''name'' = Inr name)"
    and dist: "distinct (map (\<lambda>kv. digits_value (fst kv)) vlan_list)"
    and phys: "\<forall>kv \<in> set interface_list. CHR ''/'' \<in> set (fst kv) \<longrightarrow>
                  scannable (map (\<lambda>kv. digits_value (fst kv)) vlan_list) (snd kv)"
  shows "\<exists>out. get_vlans (Inr vlan_list) (Inr interface_list) = Inr out \<and>
     map fst out = map (\<lambda>kv. digits_value (fst kv)) vlan_list \<and>
     (\<forall>kv \<in> set vlan_list. \<forall>name. py_getitem (snd kv) ''name'' = Inr name \<longrightarrow>
        map_of out (digits_value (fst kv)) =
          Some (VlanEntry name (vlan_members (digits_value (fst kv)) interface_list)))"
proof (rule add_vlans_run [OF ids dist])
  fix vlan_json
  assume first: "efold add_vlan vlan_list [] = Inr vlan_json"
    and keys: "map fst vlan_json = map (\<lambda>kv. digits_value (fst kv)) vlan_list"
    and names: "\<And>k v name. (k, v) \<in> set vlan_list \<Longrightarrow> py_getitem v ''name'' = Inr name \<Longrightarrow>
           map_of vlan_json (digits_value k) = Some (VlanEntry name [])"
  let ?phys = "filter (\<lambda>kv. CHR ''/'' \<in> set (fst kv)) interface_list"
  from phys keys have "\<forall>kv \<in> set ?phys. scannable (map fst vlan_json) (snd kv)" by simp
  from scan_loop_run [OF this] obtain out where
    loop: "efold scan_interface ?phys vlan_json = Inr out"
    and okeys: "map fst out = map fst vlan_json"
    and look: "\<And>n. map_of out n =
        map_option (\<lambda>e. VlanEntry (vlan_name e) (vlan_interfaces e @
            concat (map (\<lambda>kv. replicate (count_list (source_ids (snd kv)) n) (fst kv)) ?phys)))
          (map_of vlan_json n)"
    by blast
  have run: "get_vlans (Inr vlan_list) (Inr interface_list) = Inr out"
    by (simp add: get_vlans_def first loop)
  have per: "map_of out (digits_value (fst kv)) =
          Some (VlanEntry name (vlan_members (digits_value (fst kv)) interface_list))"
    if "kv \<in> set vlan_list" "py_getitem (snd kv) ''name'' = Inr name" for kv name
  proof -
    from that(1) have "(fst kv, snd kv) \<in> set vlan_list" by simp
    from names [OF this that(2)] show ?thesis
      by (simp add: look vlan_members_def)
  qed
  show ?thesis
    apply (rule exI [of _ out])
    apply (intro conjI)
      apply (rule run)
     apply (simp add: okeys keys)
    apply clarify
    apply (rule per; assumption)
    done
qed

lemma ex_vlans_ids:
  "\<forall>kv \<in> set ex_vlan_list. vlan_id_string (fst kv) \<and>
      (\<exists>name. py_getitem (snd kv) ''name'' = Inr name)"
  by (simp add: ex_vlan_list_def vlan_id_string_def is_digit_def char_code_def py_getitem_def)

lemma ex_vlans_values: "map (\<lambda>kv. digits_value (fst kv)) ex_vlan_list = [10, 20]"
  by (simp add: ex_vlan_list_def digits_value_def char_code_def)

lemma ex_vlans_scannable:
  "\<forall>kv \<in> set ex_vlan_interfaces. CHR ''/'' \<in> set (fst kv) \<longrightarrow>
      scannable (map (\<lambda>kv. digits_value (fst kv)) ex_vlan_list) (snd kv)"
  unfolding ex_vlans_values
  by (simp add: ex_vlan_interfaces_def scannable_def vlan_source_ok_def vlan_id_string_def
      is_digit_def char_code_def digits_value_def)

lemma ex_vlans_run:
  "get_vlans (Inr ex_vlan_list) (Inr ex_vlan_interfaces) =
     Inr [(10, VlanEntry (JStr ''default'') [''1/1/1'']), (20, VlanEntry (JStr ''data'') [])]"
  by (simp add: get_vlans_def ex_vlan_list_def ex_vlan_interfaces_def add_vlan_def
      py_getitem_def py_int_of_str_def beyond_int_grammar_def is_digit_def char_code_def
      digits_value_def scan_interface_def membership_key_def present_nonempty_def py_in_def
      py_truthy_def py_len_def vlan_ids_of_def py_iter_def py_int_def append_interface_def)

text \<open>
  The theorem at the spec's example: \<open>vlan_json[10]["interfaces"] == ["1/1/1"]\<close> and
  \<open>vlan_json[20]["interfaces"] == []\<close>; the non-physical interface tagged with VLAN 20
  contributes nothing.
\<close>

theorem get_vlans_membership_witness:
  "distinct (map (\<lambda>kv. digits_value (fst kv)) ex_vlan_list) \<and>
   get_vlans (Inr ex_vlan_list) (Inr ex_vlan_interfaces) =
     Inr [(10, VlanEntry (JStr ''default'') [''1/1/1'']), (20, VlanEntry (JStr ''data'') [])] \<and>
   vlan_members 10 ex_vlan_interfaces = [''1/1/1''] \<and>
   vlan_members 20 ex_vlan_interfaces = []"
proof -
  have d: "distinct (map (\<lambda>kv. digits_value (fst kv)) ex_vlan_list)"
    by (simp add: ex_vlans_values)
  have m: "vlan_members 10 ex_vlan_interfaces = [''1/1/1'']"
    "vlan_members 20 ex_vlan_interfaces = []"
    by (simp_all add: vlan_members_def ex_vlan_interfaces_def source_ids_def member_source_def
        nonempty_dict_def digits_value_def char_code_def)
  from get_vlans_membership [OF ex_vlans_ids d ex_vlans_scannable]
  show ?thesis
    apply -
    apply (intro conjI)
       apply (rule d)
      apply (rule ex_vlans_run)
     apply (rule m(1))
    apply (rule m(2))
    done
qed

section \<open>Interface counters\<close>

lemma copy_stat_dict:
  assumes that: "py_getitem details ''statistics'' = Inr (JDict st)"
  shows "copy_stat details (src, dst) c = Inr (upd_opt dst (map_of st src) c)"
proof (cases "map_of st src")
  case None
  then have "src \<notin> fst ` set st" by (simp add: map_of_eq_None_iff)
  with None show ?thesis
    by (simp add: copy_stat_def that py_in_def upd_opt_def)
next
  case (Some v)
  then have "src \<in> fst ` set st" by (metis map_of_eq_None_iff option.distinct(1))
  with Some show ?thesis
    by (simp add: copy_stat_def that py_in_def upd_opt_def) (simp add: py_getitem_def)
qed

lemma map_of_upd_opt:
  "map_of (upd_opt d x c) k =
     (if k = d then (case x of None \<Rightarrow> map_of c k | Some v \<Rightarrow> Some v) else map_of c k)"
  by (simp add: upd_opt_def update_conv' split: option.splits)

lemma keys_upd_opt:
  "d \<in> set (map fst c) \<Longrightarrow> map fst (upd_opt d x c) = map fst c"
  by (simp add: upd_opt_def update_keys split: option.splits)

lemma intf_counter_of_run:
  assumes "py_getitem details ''statistics'' = Inr (JDict st)"
  shows "intf_counter_of details = Inr (JDict (counters_of st))"
  by (simp add: intf_counter_of_def stat_keys_def copy_stat_dict [OF assms] counters_of_def)



lemma keys_foldl_upd_opt:
  "\<forall>sd \<in> set tbl. snd sd \<in> set (map fst c) \<Longrightarrow>
   map fst (foldl (\<lambda>c sd. upd_opt (snd sd) (map_of st (fst sd)) c) c tbl) = map fst c"
  by (induction tbl rule: rev_induct) (simp_all add: keys_upd_opt)

lemma map_of_foldl_upd_opt_other:
  "dst \<notin> snd ` set tbl \<Longrightarrow>
   map_of (foldl (\<lambda>c sd. upd_opt (snd sd) (map_of st (fst sd)) c) c tbl) dst = map_of c dst"
  by (induction tbl rule: rev_induct) (simp_all add: map_of_upd_opt)

lemma map_of_foldl_upd_opt:
  "distinct (map snd tbl) \<Longrightarrow> (src, dst) \<in> set tbl \<Longrightarrow>
   map_of (foldl (\<lambda>c sd. upd_opt (snd sd) (map_of st (fst sd)) c) c tbl) dst =
     (case map_of st src of None \<Rightarrow> map_of c dst | Some v \<Rightarrow> Some v)"
proof (induction tbl rule: rev_induct)
  case Nil
  then show ?case by simp
next
  case (snoc x tbl)
  show ?case
  proof (cases "(src, dst) \<in> set tbl")
    case True
    then have "dst \<in> snd ` set tbl" by force
    with snoc.prems have "snd x \<noteq> dst" by auto
    with snoc True show ?thesis by (simp add: map_of_upd_opt)
  next
    case False
    with snoc.prems have x: "x = (src, dst)" by simp
    with snoc.prems have "dst \<notin> snd ` set tbl" by simp
    from map_of_foldl_upd_opt_other [OF this] x show ?thesis
      by (simp add: map_of_upd_opt split: option.splits)
  qed
qed

lemma distinct_stat_keys: "distinct (map snd stat_keys)"
  by (simp add: stat_keys_def)

lemma keys_counters_of: "map fst (counters_of st) = map fst zero_counters"
  unfolding counters_of_def
  by (rule keys_foldl_upd_opt) (simp add: stat_keys_def zero_counters_def)

lemma counters_of_lookup:
  assumes "(src, dst) \<in> set stat_keys"
  shows "map_of (counters_of st) dst =
           Some (case map_of st src of None \<Rightarrow> JInt 0 | Some v \<Rightarrow> v)"
proof -
  from assms have "dst \<in> snd ` set stat_keys" by force
  then have z: "map_of zero_counters dst = Some (JInt 0)"
    by (auto simp: stat_keys_def zero_counters_def)
  show ?thesis
    unfolding counters_of_def map_of_foldl_upd_opt [OF distinct_stat_keys assms]
    by (simp add: z split: option.splits)
qed

text \<open>
  Claim C8, on the inputs the counter operation is defined for: an interface dict with
  distinct names in which every interface carries a \<open>statistics\<close> dict (the source indexes
  \<open>interface_details['statistics']\<close> unguarded, so a missing or non-dict \<open>statistics\<close>
  raises and ends the whole call). On every such input the operation returns; its result
  has one entry per interface, in the interfaces' order; each entry has exactly the twelve
  counters; and each counter is the source statistic unmodified when its key is present
  and integer 0 when it is absent. The discard counters read \<open>tx_dropped\<close> and
  \<open>rx_dropped\<close>.
\<close>

theorem get_interfaces_counters_values:
  assumes "distinct (map fst interface_list)"
    and "\<forall>(interface, interface_details) \<in> set interface_list.
           \<exists>statistics. py_getitem interface_details ''statistics'' = Inr (JDict statistics)"
  shows "\<exists>out. get_interfaces_counters (Inr interface_list) = Inr out \<and>
    map fst out = map fst interface_list \<and>
    (\<forall>(interface, interface_details) \<in> set interface_list. \<forall>statistics.
       py_getitem interface_details ''statistics'' = Inr (JDict statistics) \<longrightarrow>
       (\<exists>c. map_of out interface = Some (JDict c) \<and>
    map fst c = [''tx_errors'', ''rx_errors'', ''tx_discards'', ''rx_discards'',
      ''tx_octets'', ''rx_octets'', ''tx_unicast_packets'', ''rx_unicast_packets'',
      ''tx_multicast_packets'', ''rx_multicast_packets'',
      ''tx_broadcast_packets'', ''rx_broadcast_packets''] \<and>
    map_of c ''tx_errors'' = Some (stat_or_zero statistics ''tx_errors'') \<and>
    map_of c ''rx_errors'' = Some (stat_or_zero statistics ''rx_errors'') \<and>
    map_of c ''tx_discards'' = Some (stat_or_zero statistics ''tx_dropped'') \<and>
    map_of c ''rx_discards'' = Some (stat_or_zero statistics ''rx_dropped'') \<and>
    map_of c ''tx_octets'' = Some (stat_or_zero statistics ''tx_bytes'') \<and>
    map_of c ''rx_octets'' = Some (stat_or_zero statistics ''rx_bytes'') \<and>
    map_of c ''tx_unicast_packets'' = Some (stat_or_zero statistics ''if_hc_out_unicast_packets'') \<and>
    map_of c ''rx_unicast_packets'' = Some (stat_or_zero statistics ''if_hc_in_unicast_packets'') \<and>
    map_of c ''tx_multicast_packets'' = Some (stat_or_zero statistics ''if_out_multicast_packets'') \<and>
    map_of c ''rx_multicast_packets'' = Some (stat_or_zero statistics ''if_in_multicast_packets'') \<and>
    map_of c ''tx_broadcast_packets'' = Some (stat_or_zero statistics ''if_out_broadcast_packets'') \<and>
    map_of c ''rx_broadcast_packets'' = Some (stat_or_zero statistics ''if_in_broadcast_packets'')))"
proof -
  let ?body = "\<lambda>(k, v) acc. ebind (intf_counter_of v) (\<lambda>e. Inr (AList.update k e acc))"
  from assms(2) have "\<forall>(k, v) \<in> set interface_list. \<exists>e. intf_counter_of v = Inr e"
    by (auto dest!: bspec intf_counter_of_run)
  from efold_update_total [OF this, of "[]"]
  obtain out where loop: "efold ?body interface_list [] = Inr out" by blast
  then have run: "get_interfaces_counters (Inr interface_list) = Inr out"
    by (simp add: get_interfaces_counters_def)
  from efold_update_keys [OF loop] assms(1)
  have keys: "map fst out = map fst interface_list" by simp
  have entry: "\<exists>c. map_of out interface = Some (JDict c) \<and>
    map fst c = [''tx_errors'', ''rx_errors'', ''tx_discards'', ''rx_discards'',
      ''tx_octets'', ''rx_octets'', ''tx_unicast_packets'', ''rx_unicast_packets'',
      ''tx_multicast_packets'', ''rx_multicast_packets'',
      ''tx_broadcast_packets'', ''rx_broadcast_packets''] \<and>
    map_of c ''tx_errors'' = Some (stat_or_zero statistics ''tx_errors'') \<and>
    map_of c ''rx_errors'' = Some (stat_or_zero statistics ''rx_errors'') \<and>
    map_of c ''tx_discards'' = Some (stat_or_zero statistics ''tx_dropped'') \<and>
    map_of c ''rx_discards'' = Some (stat_or_zero statistics ''rx_dropped'') \<and>
    map_of c ''tx_octets'' = Some (stat_or_zero statistics ''tx_bytes'') \<and>
    map_of c ''rx_octets'' = Some (stat_or_zero statistics ''rx_bytes'') \<and>
    map_of c ''tx_unicast_packets'' = Some (stat_or_zero statistics ''if_hc_out_unicast_packets'') \<and>
    map_of c ''rx_unicast_packets'' = Some (stat_or_zero statistics ''if_hc_in_unicast_packets'') \<and>
    map_of c ''tx_multicast_packets'' = Some (stat_or_zero statistics ''if_out_multicast_packets'') \<and>
    map_of c ''rx_multicast_packets'' = Some (stat_or_zero statistics ''if_in_multicast_packets'') \<and>
    map_of c ''tx_broadcast_packets'' = Some (stat_or_zero statistics ''if_out_broadcast_packets'') \<and>
    map_of c ''rx_broadcast_packets'' = Some (stat_or_zero statistics ''if_in_broadcast_packets'')"
    if mem: "(interface, interface_details) \<in> set interface_list"
      and st: "py_getitem interface_details ''statistics'' = Inr (JDict statistics)"
    for interface interface_details statistics
  proof -
    from efold_update_lookup [OF loop assms(1) mem] intf_counter_of_run [OF st]
    have out: "map_of out interface = Some (JDict (counters_of statistics))" by simp
    have keys: "map fst (counters_of statistics) = map fst zero_counters"
      by (rule keys_counters_of)
    have l: "\<And>src dst. (src, dst) \<in> set stat_keys \<Longrightarrow>
       map_of (counters_of statistics) dst = Some (stat_or_zero statistics src)"
      by (simp add: counters_of_lookup stat_or_zero_def)
    show ?thesis
      apply (rule exI [of _ "counters_of statistics"])
      apply (intro conjI)
                  apply (rule out)
                 apply (simp add: keys zero_counters_def)
                apply (rule l, simp add: stat_keys_def)+
      done
  qed
  from run keys entry show ?thesis by blast
qed

text \<open>
  The theorem at two interfaces: one with \<open>tx_bytes = 5\<close> and \<open>rx_dropped = 7\<close>, one
  whose \<open>statistics\<close> is empty, so that every counter is the default 0.
\<close>

theorem get_interfaces_counters_values_witness:
  "distinct (map fst ex_counters_in) \<and>
   get_interfaces_counters (Inr ex_counters_in) =
     Inr [(''1/1/1'', JDict
       [(''tx_errors'', JInt 0), (''rx_errors'', JInt 0),
        (''tx_discards'', JInt 0), (''rx_discards'', JInt 7),
        (''tx_octets'', JInt 5), (''rx_octets'', JInt 0),
        (''tx_unicast_packets'', JInt 0), (''rx_unicast_packets'', JInt 0),
        (''tx_multicast_packets'', JInt 0), (''rx_multicast_packets'', JInt 0),
        (''tx_broadcast_packets'', JInt 0), (''rx_broadcast_packets'', JInt 0)]),
      (''vlan1'', JDict
       [(''tx_errors'', JInt 0), (''rx_errors'', JInt 0),
        (''tx_discards'', JInt 0), (''rx_discards'', JInt 0),
        (''tx_octets'', JInt 0), (''rx_octets'', JInt 0),
        (''tx_unicast_packets'', JInt 0), (''rx_unicast_packets'', JInt 0),
        (''tx_multicast_packets'', JInt 0), (''rx_multicast_packets'', JInt 0),
        (''tx_broadcast_packets'', JInt 0), (''rx_broadcast_packets'', JInt 0)])] \<and>
   stat_or_zero [(''tx_bytes'', JInt 5), (''rx_dropped'', JInt 7)] ''rx_dropped'' = JInt 7 \<and>
   stat_or_zero [(''tx_bytes'', JInt 5), (''rx_dropped'', JInt 7)] ''rx_bytes'' = JInt 0"
proof -
  have run: "get_interfaces_counters (Inr ex_counters_in) =
     Inr [(''1/1/1'', JDict
       [(''tx_errors'', JInt 0), (''rx_errors'', JInt 0),
        (''tx_discards'', JInt 0), (''rx_discards'', JInt 7),
        (''tx_octets'', JInt 5), (''rx_octets'', JInt 0),
        (''tx_unicast_packets'', JInt 0), (''rx_unicast_packets'', JInt 0),
        (''tx_multicast_packets'', JInt 0), (''rx_multicast_packets'', JInt 0),
        (''tx_broadcast_packets'', JInt 0), (''rx_broadcast_packets'', JInt 0)]),
      (''vlan1'', JDict
       [(''tx_errors'', JInt 0), (''rx_errors'', JInt 0),
        (''tx_discards'', JInt 0), (''rx_discards'', JInt 0),
        (''tx_octets'', JInt 0), (''rx_octets'', JInt 0),
        (''tx_unicast_packets'', JInt 0), (''rx_unicast_packets'', JInt 0),
        (''tx_multicast_packets'', JInt 0), (''rx_multicast_packets'', JInt 0),
        (''tx_broadcast_packets'', JInt 0), (''rx_broadcast_packets'', JInt 0)])]"
    by (simp add: get_interfaces_counters_def ex_counters_in_def intf_counter_of_def
        stat_keys_def zero_counters_def copy_stat_def py_getitem_def py_in_def)
  have d: "distinct (map fst ex_counters_in)" by (simp add: ex_counters_in_def)
  have s: "\<forall>(interface, interface_details) \<in> set ex_counters_in.
           \<exists>statistics. py_getitem interface_details ''statistics'' = Inr (JDict statistics)"
    by (simp add: ex_counters_in_def py_getitem_def)
  have z: "stat_or_zero [(''tx_bytes'', JInt 5), (''rx_dropped'', JInt 7)] ''rx_dropped'' = JInt 7"
    "stat_or_zero [(''tx_bytes'', JInt 5), (''rx_dropped'', JInt 7)] ''rx_bytes'' = JInt 0"
    by (simp_all add: stat_or_zero_def)
  from get_interfaces_counters_values [OF d s] run d z
  show ?thesis by blast
qed
section \<open>MAC address table\<close>

lemma split_on_no_sep: "c \<notin> set s \<Longrightarrow> split_on c s = [s]"
  by (induction s) auto

lemma split_on_pair:
  "c \<notin> set ty \<Longrightarrow> c \<notin> set addr \<Longrightarrow> split_on c (ty @ c # addr) = [ty, addr]"
  by (induction ty) (auto simp: split_on_no_sep)

lemma one_sep_parts:
  assumes "count_list (ty @ c # addr) c = 1"
  shows "c \<notin> set ty" "c \<notin> set addr"
  using assms by (auto simp: count_list_0_iff [symmetric])

lemma one_sep_split:
  assumes "count_list key c = 1"
  obtains ty addr where "key = ty @ c # addr"
proof -
  from assms have "c \<in> set key" by (metis count_list_0_iff zero_neq_one)
  then show ?thesis by (auto dest: split_list intro: that)
qed


lemma mac_record_readable:
  assumes r: "readable_mac (ty @ CHR '','' # addr, obj)"
  shows "\<exists>interface vlan. mac_record ((ty @ CHR '','' # addr, obj) # rest) = Inr (JDict
         [(''mac'', JStr addr),
          (''interface'', JStr interface),
          (''vlan'', JInt vlan),
          (''static'', JBool (ty = ''static'')),
          (''active'', JBool True),
          (''moves'', JNull),
          (''last_move'', JNull)])"
proof -
  from r have c: "count_list (ty @ CHR '','' # addr) CHR '','' = 1"
    by (simp add: readable_mac_def)
  from one_sep_parts [OF c] have sp: "split_on CHR '','' (ty @ CHR '','' # addr) = [ty, addr]"
    by (rule split_on_pair)
  from r obtain attrs where f: "mac_get obj = Inr attrs"
    by (auto simp: readable_mac_def split: sum.splits)
  from r f obtain port where p: "py_getitem attrs ''port'' = Inr (JDict port)" "port \<noteq> []"
    by (auto simp: readable_mac_def split: sum.splits jv.splits)
  from r obtain n where n: "py_int (parent_vlan_id obj) = Inr n"
    by (auto simp: readable_mac_def split: sum.splits)
  from p(2) obtain k v port' where port: "port = (k, v) # port'" by (cases port) auto
  show ?thesis
    by (simp add: mac_record_def py_index_def sp f p n py_keys_def port)
qed

lemma mac_record_total:
  assumes "mac \<noteq> []" and "readable_mac (hd mac)"
  shows "\<exists>r. mac_record mac = Inr r"
proof -
  from assms(1) obtain key obj rest where mac: "mac = (key, obj) # rest"
    by (cases mac) auto
  with assms(2) have r: "readable_mac (key, obj)" by simp
  then have "count_list key CHR '','' = 1" by (simp add: readable_mac_def)
  then obtain ty addr where key: "key = ty @ CHR '','' # addr" by (rule one_sep_split)
  from mac_record_readable [OF r [unfolded key], of rest] show ?thesis
    unfolding mac key by blast
qed

lemma get_mac_address_table_run:
  assumes fetch: "list_all2 (\<lambda>vl macs. mac_get_all (snd vl) = Inr macs) vlans mac_list"
    and rd: "\<forall>macs \<in> set mac_list. macs \<noteq> [] \<longrightarrow> readable_mac (hd macs)"
  obtains out where "get_mac_address_table (Inr vlans) mac_get_all = Inr out"
    and "list_all2 (\<lambda>macs r. mac_record macs = Inr r) (filter (\<lambda>macs. macs \<noteq> []) mac_list) out"
proof -
  have body1: "(\<lambda>(vlan, vlan_obj) mac_list.
                     ebind (mac_get_all vlan_obj) (\<lambda>macs. Inr (mac_list @ [macs]))) =
               (\<lambda>x acc. ebind (mac_get_all (snd x)) (\<lambda>e. Inr (acc @ [e])))"
    by (simp add: fun_eq_iff case_prod_beta)
  have loop1: "efold (\<lambda>(vlan, vlan_obj) mac_list.
                     ebind (mac_get_all vlan_obj) (\<lambda>macs. Inr (mac_list @ [macs]))) vlans []
               = Inr mac_list"
    unfolding body1 using efold_append [OF fetch, of "[]"] by simp
  let ?ne = "filter (\<lambda>macs. macs \<noteq> []) mac_list"
  have "\<forall>macs \<in> set ?ne. \<exists>r. mac_record macs = Inr r"
    using rd by (auto intro: mac_record_total)
  then have "\<exists>out. list_all2 (\<lambda>macs r. mac_record macs = Inr r) ?ne out"
    by (rule list_all2_results)
  then obtain out where out: "list_all2 (\<lambda>macs r. mac_record macs = Inr r) ?ne out" by blast
  have "get_mac_address_table (Inr vlans) mac_get_all = Inr out"
    using efold_append [OF out, of "[]"] by (simp add: get_mac_address_table_def loop1)
  from this out show ?thesis by (rule that)
qed

lemma ex_mac_fetch:
  "list_all2 (\<lambda>vl macs. ex_mac_get_all (snd vl) = Inr macs) ex_vlans ex_mac_list"
  by (simp add: ex_vlans_def ex_mac_list_def ex_mac_get_all_def)

lemma ex_mac_readable:
  "\<forall>macs \<in> set ex_mac_list. macs \<noteq> [] \<longrightarrow> readable_mac (hd macs)"
  by (simp add: ex_mac_list_def readable_mac_def ex_mac_obj_def py_getitem_def py_int_def)

lemma ex_mac_run: "get_mac_address_table (Inr ex_vlans) ex_mac_get_all = Inr ex_mac_out"
  by (simp add: get_mac_address_table_def ex_vlans_def ex_mac_get_all_def ex_mac_out_def
      mac_record_def py_index_def ex_mac_obj_def py_getitem_def py_int_def py_keys_def)

text \<open>
  Claim C9. Let \<open>mac_list\<close> be what \<open>Mac.get_all\<close> returns for the VLANs, in order, and let
  the first entry of every non-empty one be readable (one comma in its key, a fetch that
  returns a non-empty \<open>port\<close> dict, a VLAN id that converts). Then the MAC-table operation
  returns one record per non-empty result set, the empty ones being dropped. The record of
  a result set whose first key is \<open>type,address\<close> has \<open>static\<close> equal to
  \<open>type == "static"\<close>, \<open>mac\<close> equal to the address part, \<open>active\<close> true, and
  \<open>moves\<close> and \<open>last_move\<close> null.
\<close>

theorem get_mac_address_table_records:
  assumes fetch: "list_all2 (\<lambda>vl macs. mac_get_all (snd vl) = Inr macs) vlans mac_list"
    and rd: "\<forall>macs \<in> set mac_list. macs \<noteq> [] \<longrightarrow> readable_mac (hd macs)"
  shows "\<exists>out. get_mac_address_table (Inr vlans) mac_get_all = Inr out \<and>
    length out = length (filter (\<lambda>macs. macs \<noteq> []) mac_list) \<and>
    (\<forall>i < length out. \<forall>ty addr obj.
       hd (filter (\<lambda>macs. macs \<noteq> []) mac_list ! i) = (ty @ CHR '','' # addr, obj) \<longrightarrow>
       (\<exists>interface vlan. out ! i = JDict
         [(''mac'', JStr addr),
          (''interface'', JStr interface),
          (''vlan'', JInt vlan),
          (''static'', JBool (ty = ''static'')),
          (''active'', JBool True),
          (''moves'', JNull),
          (''last_move'', JNull)]))"
proof (rule get_mac_address_table_run [OF fetch rd])
  fix out
  let ?ne = "filter (\<lambda>macs. macs \<noteq> []) mac_list"
  assume run: "get_mac_address_table (Inr vlans) mac_get_all = Inr out"
    and recs: "list_all2 (\<lambda>macs r. mac_record macs = Inr r) ?ne out"
  from recs have len: "length out = length ?ne" by (simp add: list_all2_lengthD)
  have per: "\<exists>interface vlan. out ! i = JDict
         [(''mac'', JStr addr),
          (''interface'', JStr interface),
          (''vlan'', JInt vlan),
          (''static'', JBool (ty = ''static'')),
          (''active'', JBool True),
          (''moves'', JNull),
          (''last_move'', JNull)]"
    if i: "i < length out" and h: "hd (?ne ! i) = (ty @ CHR '','' # addr, obj)"
    for i ty addr obj
  proof -
    from i len nth_mem [of i ?ne]
    have ne: "?ne ! i \<noteq> []" and "?ne ! i \<in> set mac_list" by simp_all
    with rd h have r: "readable_mac (ty @ CHR '','' # addr, obj)" by auto
    from ne h have eq: "?ne ! i = (ty @ CHR '','' # addr, obj) # tl (?ne ! i)"
      by (cases "?ne ! i") auto
    from list_all2_nthD [OF recs, of i] i len
    have "mac_record (?ne ! i) = Inr (out ! i)" by simp
    with mac_record_readable [OF r, of "tl (?ne ! i)"] eq show ?thesis by auto
  qed
  show ?thesis
    apply (rule exI [of _ out])
    apply (intro conjI)
      apply (rule run)
     apply (rule len)
    apply clarify
    apply (rule per; assumption)
    done
qed

text \<open>
  The theorem at the three example VLANs: \<open>"static,aa:bb:cc:dd:ee:ff"\<close> gives
  \<open>static = True\<close> and \<open>mac = "aa:bb:cc:dd:ee:ff"\<close>.
\<close>

theorem get_mac_address_table_records_witness:
  "list_all2 (\<lambda>vl macs. ex_mac_get_all (snd vl) = Inr macs) ex_vlans ex_mac_list \<and>
   get_mac_address_table (Inr ex_vlans) ex_mac_get_all =
     Inr [JDict [(''mac'', JStr ''aa:bb:cc:dd:ee:ff''), (''interface'', JStr ''1/1/1''),
                 (''vlan'', JInt 10), (''static'', JBool True), (''active'', JBool True),
                 (''moves'', JNull), (''last_move'', JNull)],
          JDict [(''mac'', JStr ''00:00:00:00:00:01''), (''interface'', JStr ''1/1/3''),
                 (''vlan'', JInt 20), (''static'', JBool False), (''active'', JBool True),
                 (''moves'', JNull), (''last_move'', JNull)]]"
proof -
  from get_mac_address_table_records [OF ex_mac_fetch ex_mac_readable]
  show ?thesis
    apply -
    apply (intro conjI)
     apply (rule ex_mac_fetch)
    apply (rule ex_mac_run [unfolded ex_mac_out_def])
    done
qed




end
